theory Spec2Isabelle
  imports
    Main
    "HOL-Library.Word"
    "HOL-Library.Char_ord"
    "HOL-Library.List_Lexorder"
    "HOL-Library.AList"
    "HOL-Library.Sublist"
begin

section \<open>The Go values the two clients work with\<close>

text \<open>
  A Go \<^verbatim>\<open>string\<close> is a sequence of bytes: it is a \<^typ>\<open>string\<close> here, and the order
  of \<^verbatim>\<open>sort.Strings\<close> and of \<^verbatim>\<open><\<close> on strings is the bytewise lexicographic
  order that \<open>Char_ord\<close> and \<open>List_Lexorder\<close> give to \<^typ>\<open>string\<close>.
  A Go \<^verbatim>\<open>int\<close> is an \<^typ>\<open>int\<close>; the only arithmetic of the package is one
  division, whose 64-bit wrap-around is written out in \<open>int_quo\<close>.

  An \<^verbatim>\<open>error\<close> is one of three things: an error value made by the standard
  library (\<^verbatim>\<open>net/http\<close>, \<^verbatim>\<open>encoding/json\<close>), which the package only ever
  passes on; an error made by \<^verbatim>\<open>fmt.Errorf\<close>, kept as its text; and a run-time
  panic, which unwinds through every caller and so travels in the model the way
  a returned error does.
\<close>

datatype error =
    Underlying string
  | Errorf string
  | RuntimePanic string

text \<open>\<^verbatim>\<open>strconv.Itoa\<close>, and \<^verbatim>\<open>%d\<close> of \<^verbatim>\<open>fmt\<close>: the decimal digits of an integer.\<close>

fun digits :: "nat \<Rightarrow> string" where
  "digits n =
     (if n < 10 then [''0123456789'' ! n]
      else digits (n div 10) @ [''0123456789'' ! (n mod 10)])"

definition Itoa :: "int \<Rightarrow> string" where
  "Itoa i = (if i < 0 then CHR ''-'' # digits (nat (- i)) else digits (nat i))"

text \<open>
  \<^verbatim>\<open>a / b\<close> on \<^verbatim>\<open>int\<close>: the quotient truncated toward zero, in 64 bits (the
  one overflow, of the least integer by \<open>-1\<close>, wraps to the least integer).
  Division by zero panics; the caller of \<open>int_quo\<close> tests for it.
\<close>

definition int_quo :: "int \<Rightarrow> int \<Rightarrow> int" where
  "int_quo a b =
     (if a = - (2 ^ 63) \<and> b = - 1 then - (2 ^ 63)
      else sgn a * sgn b * (\<bar>a\<bar> div \<bar>b\<bar>))"

text \<open>\<^verbatim>\<open>strings.Join(elems, sep)\<close>.\<close>

fun strings_Join :: "string list \<Rightarrow> string \<Rightarrow> string" where
  "strings_Join [] sep = []"
| "strings_Join [x] sep = x"
| "strings_Join (x # y # ys) sep = x @ sep @ strings_Join (y # ys) sep"

text \<open>
  \<^verbatim>\<open>strings.Replace(s, old, new, -1)\<close> for a non-empty \<open>old\<close>: every
  non-overlapping occurrence of \<open>old\<close>, from the left, becomes \<open>new\<close>.
\<close>

function strings_Replace :: "string \<Rightarrow> string \<Rightarrow> string \<Rightarrow> string" where
  "strings_Replace [] old new = []"
| "strings_Replace (c # cs) old new =
     (if old \<noteq> [] \<and> prefix old (c # cs)
      then new @ strings_Replace (drop (length old) (c # cs)) old new
      else c # strings_Replace cs old new)"
  by pat_completeness auto
termination
  by (relation "measure (\<lambda>(s, old, new). length s)") (auto simp: neq_Nil_conv)

subsection \<open>\<^verbatim>\<open>net/url\<close>\<close>

text \<open>
  \<^verbatim>\<open>url.Values\<close> is a \<^verbatim>\<open>map[string][]string\<close>. It is an association list
  whose keys are distinct; the order of its entries stands for the order in
  which \<^verbatim>\<open>range\<close> happens to visit the map, which Go leaves open.
\<close>

type_synonym url_Values = "(string \<times> string list) list"

definition values_Set :: "url_Values \<Rightarrow> string \<Rightarrow> string \<Rightarrow> url_Values" where
  "values_Set v key val = AList.update key [val] v"

definition values_Get :: "url_Values \<Rightarrow> string \<Rightarrow> string" where
  "values_Get v key =
     (case map_of v key of
        None \<Rightarrow> []
      | Some [] \<Rightarrow> []
      | Some (val # _) \<Rightarrow> val)"

text \<open>
  \<^verbatim>\<open>url.QueryEscape\<close>: letters, digits and \<^verbatim>\<open>- _ . ~\<close> stay, a space becomes
  \<^verbatim>\<open>+\<close>, every other byte becomes \<^verbatim>\<open>%XX\<close> in upper-case hexadecimal.
\<close>

definition shouldEscape :: "char \<Rightarrow> bool" where
  "shouldEscape c =
     (if (CHR ''a'' \<le> c \<and> c \<le> CHR ''z'') \<or> (CHR ''A'' \<le> c \<and> c \<le> CHR ''Z'')
           \<or> (CHR ''0'' \<le> c \<and> c \<le> CHR ''9'') then False
      else if c \<in> set ''-_.~'' then False
      else True)"

definition upperhex :: "nat \<Rightarrow> char" where
  "upperhex n = ''0123456789ABCDEF'' ! n"

definition escape_byte :: "char \<Rightarrow> string" where
  "escape_byte c =
     (if shouldEscape c then
        (if c = CHR '' '' then ''+''
         else [CHR ''%'', upperhex (of_char c div 16), upperhex (of_char c mod 16)])
      else [c])"

definition url_QueryEscape :: "string \<Rightarrow> string" where
  "url_QueryEscape s = concat (map escape_byte s)"

text \<open>
  \<^verbatim>\<open>Values.Encode\<close>: the keys in ascending order, each value of a key as
  \<^verbatim>\<open>key=value\<close>, both query-escaped, joined by \<^verbatim>\<open>&\<close>.
\<close>

definition values_Encode :: "url_Values \<Rightarrow> string" where
  "values_Encode v =
     strings_Join
       (concat (map (\<lambda>key. map (\<lambda>val. url_QueryEscape key @ ''='' @ url_QueryEscape val)
                               (case map_of v key of None \<Rightarrow> [] | Some vals \<Rightarrow> vals))
                    (sort (map fst v))))
       ''&''"

section \<open>The Market client: the request signature\<close>

text \<open>
  \<^verbatim>\<open>crypto/hmac\<close> with \<^verbatim>\<open>crypto/sha1\<close>, and \<^verbatim>\<open>encoding/base64\<close>, are the
  standard library's: the model takes them as parameters.
\<close>

record crypto =
  hmac_sha1 :: "string \<Rightarrow> string \<Rightarrow> string"
  base64_StdEncoding :: "string \<Rightarrow> string"

definition sign :: "crypto \<Rightarrow> string \<Rightarrow> string \<Rightarrow> string" where
  "sign cr secret query =
     base64_StdEncoding cr (hmac_sha1 cr (secret @ ''&'') (''GET&%2F&'' @ query))"

definition urlEncode :: "string \<Rightarrow> string" where
  "urlEncode input = strings_Replace (url_QueryEscape input) ''+'' ''%20''"

definition buildQueryString :: "url_Values \<Rightarrow> string" where
  "buildQueryString params =
     (let keys = sort (filter (\<lambda>key. key \<noteq> ''Signature'') (map fst params));
          queries = map (\<lambda>key. urlEncode key @ ''='' @ urlEncode (values_Get params key)) keys
      in strings_Join queries ''&'')"

text \<open>
  The two lines of \<^verbatim>\<open>request\<close> that compute the signature of the parameters
  it is about to send.
\<close>

definition request_signature :: "crypto \<Rightarrow> string \<Rightarrow> url_Values \<Rightarrow> string" where
  "request_signature cr secret params = sign cr secret (urlEncode (buildQueryString params))"

section \<open>The world outside the package\<close>

text \<open>
  What the package calls in the standard library and beyond it is a parameter of
  the model. The state of the world (the network and the servers behind it, the
  clock, the random source, standard output) is a value of a type \<open>'w\<close> that
  every effect takes and returns; \<open>'b\<close> is the type of a response body.
  The context argument \<^verbatim>\<open>ctx\<close> is handed to \<^verbatim>\<open>net/http\<close> untouched and is
  part of what \<open>http_Do\<close> answers.
\<close>

type_synonym http_Header = "(string \<times> string list) list"

record http_Request =
  Method :: string
  URL :: string
  Header :: http_Header

record 'b http_Response =
  StatusCode :: int
  Body :: 'b

text \<open>A \<^verbatim>\<open>float64\<close> is its 64 bits; only \<^verbatim>\<open>fmt\<close> reads them.\<close>

type_synonym float64 = "64 word"

datatype Location = UTC | FixedZone string int

record Time =
  seconds :: int
  nanoseconds :: int
  location :: Location

text \<open>\<^verbatim>\<open>time.Time{}\<close>, the zero value.\<close>

definition zero_Time :: Time where
  "zero_Time = \<lparr>seconds = 0, nanoseconds = 0, location = UTC\<rparr>"

record ('w, 'b) platform =
  http_NewRequestWithContext :: "string \<Rightarrow> string \<Rightarrow> error + http_Request"
  http_Do :: "http_Request \<Rightarrow> 'w \<Rightarrow> (error + 'b http_Response) \<times> 'w"
  time_Now :: "'w \<Rightarrow> string \<times> 'w"
  rand_Read :: "nat \<Rightarrow> 'w \<Rightarrow> 8 word list \<times> 'w"
  time_Parse :: "string \<Rightarrow> string \<Rightarrow> Location \<Rightarrow> error + Time"
  json_Marshal_string :: "string \<Rightarrow> string"
  fmt_Sprintf_2f :: "float64 \<Rightarrow> string"
  fmt_Println :: "url_Values \<Rightarrow> 'w \<Rightarrow> 'w"
  Crypto :: crypto

text \<open>
  \<open>time_Now\<close> is \<^verbatim>\<open>time.Now().UTC().Format("2006-01-02T15:04:05Z")\<close>.
  \<open>rand_Read n\<close> is \<^verbatim>\<open>rand.Read\<close> on a buffer of \<open>n\<close> bytes: the bytes it wrote.
  \<open>json_Marshal_string\<close> is \<^verbatim>\<open>json.Marshal\<close> of a string: the quoted JSON text.

  \<^verbatim>\<open>json.NewDecoder(body).Decode(target)\<close> is a parameter of each operation, of
  type \<open>'b \<Rightarrow> error + 'r\<close> for the target struct \<open>'r\<close>: the error, or the struct as
  decoded. (Every caller drops the target when \<^verbatim>\<open>Decode\<close> returns an error.)

  \<^verbatim>\<open>time.ParseInLocation\<close> returns the zero \<^verbatim>\<open>Time\<close> beside every error:
\<close>

definition time_ParseInLocation ::
  "('w, 'b) platform \<Rightarrow> string \<Rightarrow> string \<Rightarrow> Location \<Rightarrow> Time \<times> error option" where
  "time_ParseInLocation pf layout val l =
     (case time_Parse pf layout val l of
        Inl err \<Rightarrow> (zero_Time, Some err)
      | Inr t \<Rightarrow> (t, None))"

section \<open>The Wuliu client\<close>

record WuliuProvider =
  provider_Code :: string
  provider_Name :: string

record WuliuClient =
  AppCode :: string
  providers :: "WuliuProvider list"

record WuliuStatusItem =
  item_Desc :: string
  item_Time :: Time

record WuliuStatus =
  status_Code :: string
  status_Number :: string
  status_Status :: string
  status_CompanyName :: string
  status_CompanyLogo :: string
  status_CompanyPhone :: string
  status_CourierName :: string
  status_CourierPhone :: string
  status_UpdatedAt :: Time
  status_TimeElapsed :: string
  status_Items :: "WuliuStatusItem list"

definition NewWuliuClient :: "string \<Rightarrow> WuliuClient" where
  "NewWuliuClient appCode = \<lparr>AppCode = appCode, providers = []\<rparr>"

text \<open>
  \<^verbatim>\<open>request\<close> of the Wuliu client, in two steps: the request it builds (or the
  error of \<^verbatim>\<open>http.NewRequestWithContext\<close>), then the exchange and the decoding
  of the body. It never reads the status code of the response.
\<close>

definition WuliuClient_new_request ::
  "('w, 'b) platform \<Rightarrow> WuliuClient \<Rightarrow> string \<Rightarrow> error + http_Request" where
  "WuliuClient_new_request pf client path =
     (case http_NewRequestWithContext pf ''GET'' (''https://wuliu.market.alicloudapi.com'' @ path) of
        Inl err \<Rightarrow> Inl err
      | Inr req \<Rightarrow>
          Inr (req\<lparr>Header := AList.update ''Authorization'' [''APPCODE '' @ AppCode client]
                                  (Header req)\<rparr>))"

definition WuliuClient_request ::
  "('w, 'b) platform \<Rightarrow> ('b \<Rightarrow> error + 'r) \<Rightarrow> WuliuClient \<Rightarrow> string \<Rightarrow> 'w
     \<Rightarrow> (error + 'r) \<times> 'w" where
  "WuliuClient_request pf decode client path w =
     (case WuliuClient_new_request pf client path of
        Inl err \<Rightarrow> (Inl err, w)
      | Inr req \<Rightarrow>
          (case http_Do pf req w of
             (Inl err, w') \<Rightarrow> (Inl err, w')
           | (Inr resp, w') \<Rightarrow> (decode (Body resp), w')))"

text \<open>
  The struct \<^verbatim>\<open>ret\<close> of \<^verbatim>\<open>GetProviders\<close>. Its \<^verbatim>\<open>Result\<close> is a Go map: an
  association list with distinct keys, in the order \<^verbatim>\<open>range\<close> visits it.
\<close>

record GetProviders_ret =
  gp_Status :: string
  gp_Message :: string
  gp_Result :: "(string \<times> string) list"

text \<open>
  The error \<^verbatim>\<open>GetProviders\<close> makes of a response whose status is not \<^verbatim>\<open>"200"\<close>,
  and the provider it makes of an entry of the map.
\<close>

definition GetProviders_error :: "GetProviders_ret \<Rightarrow> error" where
  "GetProviders_error ret =
     Errorf (''failed to get wuliu providers: status '' @ gp_Status ret
             @ '', message '' @ gp_Message ret @ '' returned'')"

definition provider_of :: "string \<times> string \<Rightarrow> WuliuProvider" where
  "provider_of = (\<lambda>(code, name). \<lparr>provider_Code = code, provider_Name = name\<rparr>)"

text \<open>
  \<^verbatim>\<open>GetProviders\<close> has a pointer receiver: it returns the client as it leaves
  it. \<^verbatim>\<open>sort.Slice\<close> with the order of the codes is \<open>sort_key\<close>: the codes are
  the keys of a map, so they are distinct and the sorted slice is unique.
\<close>

definition GetProviders ::
  "('w, 'b) platform \<Rightarrow> ('b \<Rightarrow> error + GetProviders_ret) \<Rightarrow> WuliuClient \<Rightarrow> 'w
     \<Rightarrow> ((error + WuliuProvider list) \<times> WuliuClient) \<times> 'w" where
  "GetProviders pf decode client w =
     (if length (providers client) > 0 then ((Inr (providers client), client), w)
      else
        case WuliuClient_request pf decode client ''/getExpressList'' w of
          (Inl err, w') \<Rightarrow> ((Inl err, client), w')
        | (Inr ret, w') \<Rightarrow>
            if gp_Status ret \<noteq> ''200'' then ((Inl (GetProviders_error ret), client), w')
            else
              (let ps = map provider_of (gp_Result ret)
               in if length ps > 0 then
                    (let sorted_ps = sort_key provider_Code ps
                     in ((Inr sorted_ps, client\<lparr>providers := sorted_ps\<rparr>), w'))
                  else ((Inr ps, client), w')))"

text \<open>The \<^verbatim>\<open>Must\<close> wrappers return, or panic with the error.\<close>

datatype 'a or_panic = Returns 'a | Panics error

definition MustGetProviders ::
  "('w, 'b) platform \<Rightarrow> ('b \<Rightarrow> error + GetProviders_ret) \<Rightarrow> WuliuClient \<Rightarrow> 'w
     \<Rightarrow> (WuliuProvider list or_panic \<times> WuliuClient) \<times> 'w" where
  "MustGetProviders pf decode client w =
     (case GetProviders pf decode client w of
        ((Inl err, client'), w') \<Rightarrow> ((Panics err, client'), w')
      | ((Inr ps, client'), w') \<Rightarrow> ((Returns ps, client'), w'))"

text \<open>The list items of \<^verbatim>\<open>GetProvidersForNumber\<close> are pairs of \<^verbatim>\<open>type\<close> and \<^verbatim>\<open>name\<close>.\<close>

record GetProvidersForNumber_ret =
  gpn_Status :: string
  gpn_Message :: string
  gpn_Number :: string
  gpn_List :: "(string \<times> string) list"

text \<open>
  The methods below have value receivers: they work on a copy of the client and
  cannot assign its fields, so they return no client. \<^verbatim>\<open>GetProvidersForNumber\<close>
  makes an error of a response whose status is not \<^verbatim>\<open>"0"\<close>, and asks for the path
  \<^verbatim>\<open>/exCompany\<close> with the number as its query.
\<close>

definition GetProvidersForNumber_error :: "GetProvidersForNumber_ret \<Rightarrow> error" where
  "GetProvidersForNumber_error ret =
     Errorf (''failed to get wuliu provider: status '' @ gpn_Status ret
             @ '', message '' @ gpn_Message ret @ '' returned'')"

definition exCompany_path :: "string \<Rightarrow> string" where
  "exCompany_path no = (let vals = values_Set [] ''no'' no in ''/exCompany?'' @ values_Encode vals)"

definition GetProvidersForNumber ::
  "('w, 'b) platform \<Rightarrow> ('b \<Rightarrow> error + GetProvidersForNumber_ret) \<Rightarrow> WuliuClient \<Rightarrow> string \<Rightarrow> 'w
     \<Rightarrow> (error + WuliuProvider list) \<times> 'w" where
  "GetProvidersForNumber pf decode client no w =
     (case WuliuClient_request pf decode client (exCompany_path no) w of
        (Inl err, w') \<Rightarrow> (Inl err, w')
      | (Inr ret, w') \<Rightarrow>
          if gpn_Status ret \<noteq> ''0'' then (Inl (GetProvidersForNumber_error ret), w')
          else (Inr (map provider_of (gpn_List ret)), w'))"

definition MustGetProvidersForNumber ::
  "('w, 'b) platform \<Rightarrow> ('b \<Rightarrow> error + GetProvidersForNumber_ret) \<Rightarrow> WuliuClient \<Rightarrow> string \<Rightarrow> 'w
     \<Rightarrow> WuliuProvider list or_panic \<times> 'w" where
  "MustGetProvidersForNumber pf decode client no w =
     (case GetProvidersForNumber pf decode client no w of
        (Inl err, w') \<Rightarrow> (Panics err, w')
      | (Inr ps, w') \<Rightarrow> (Returns ps, w'))"

text \<open>The list items of \<^verbatim>\<open>GetStatusForNumber\<close> are pairs of \<^verbatim>\<open>time\<close> and \<^verbatim>\<open>status\<close>.\<close>

record kdi_Result =
  kdi_Number :: string
  kdi_Type :: string
  kdi_List :: "(string \<times> string) list"
  kdi_DeliveryStatus :: string
  kdi_IsSign :: string
  kdi_ExpName :: string
  kdi_ExpSite :: string
  kdi_ExpPhone :: string
  kdi_Courier :: string
  kdi_CourierPhone :: string
  kdi_UpdateTime :: string
  kdi_TakeTime :: string
  kdi_Logo :: string

record GetStatusForNumber_ret =
  gsn_Status :: string
  gsn_Message :: string
  gsn_Result :: kdi_Result

text \<open>
  The \<^verbatim>\<open>switch\<close> of \<^verbatim>\<open>GetStatusForNumber\<close> on the delivery status; the display
  strings are the UTF-8 bytes of the source's literals.
\<close>

definition deliveryStatusText :: "string \<Rightarrow> string" where
  "deliveryStatusText status =
     (if status = ''0'' then
        [CHR 0xE5, CHR 0xBF, CHR 0xAB, CHR 0xE9, CHR 0x80, CHR 0x92, CHR 0xE6, CHR 0x94,
         CHR 0xB6, CHR 0xE4, CHR 0xBB, CHR 0xB6, CHR ''('', CHR 0xE6, CHR 0x8F, CHR 0xBD,
         CHR 0xE4, CHR 0xBB, CHR 0xB6, CHR '')'']
      else if status = ''1'' then
        [CHR 0xE5, CHR 0x9C, CHR 0xA8, CHR 0xE9, CHR 0x80, CHR 0x94, CHR 0xE4, CHR 0xB8, CHR 0xAD]
      else if status = ''2'' then
        [CHR 0xE6, CHR 0xAD, CHR 0xA3, CHR 0xE5, CHR 0x9C, CHR 0xA8, CHR 0xE6, CHR 0xB4,
         CHR 0xBE, CHR 0xE4, CHR 0xBB, CHR 0xB6]
      else if status = ''3'' then
        [CHR 0xE5, CHR 0xB7, CHR 0xB2, CHR 0xE7, CHR 0xAD, CHR 0xBE, CHR 0xE6, CHR 0x94, CHR 0xB6]
      else if status = ''4'' then
        [CHR 0xE6, CHR 0xB4, CHR 0xBE, CHR 0xE9, CHR 0x80, CHR 0x81, CHR 0xE5, CHR 0xA4,
         CHR 0xB1, CHR 0xE8, CHR 0xB4, CHR 0xA5]
      else if status = ''5'' then
        [CHR 0xE7, CHR 0x96, CHR 0x91, CHR 0xE9, CHR 0x9A, CHR 0xBE, CHR 0xE4, CHR 0xBB, CHR 0xB6]
      else if status = ''6'' then
        [CHR 0xE9, CHR 0x80, CHR 0x80, CHR 0xE4, CHR 0xBB, CHR 0xB6, CHR 0xE7, CHR 0xAD,
         CHR 0xBE, CHR 0xE6, CHR 0x94, CHR 0xB6]
      else status)"

text \<open>
  The error \<^verbatim>\<open>GetStatusForNumber\<close> makes of a response whose status is not
  \<^verbatim>\<open>"0"\<close>, and the path it asks for.
\<close>

definition GetStatusForNumber_error :: "GetStatusForNumber_ret \<Rightarrow> error" where
  "GetStatusForNumber_error ret =
     Errorf (''failed to get wuliu status: status '' @ gsn_Status ret
             @ '', message '' @ gsn_Message ret @ '' returned'')"

definition kdi_path :: "string \<Rightarrow> string \<Rightarrow> string" where
  "kdi_path code no =
     (let vals = values_Set (values_Set [] ''type'' code) ''no'' no
      in ''/kdi?'' @ values_Encode vals)"

definition GetStatusForNumber ::
  "('w, 'b) platform \<Rightarrow> ('b \<Rightarrow> error + GetStatusForNumber_ret) \<Rightarrow> WuliuClient
     \<Rightarrow> string \<Rightarrow> string \<Rightarrow> 'w \<Rightarrow> (error + WuliuStatus) \<times> 'w" where
  "GetStatusForNumber pf decode client code no w =
     (case WuliuClient_request pf decode client (kdi_path code no) w of
        (Inl err, w') \<Rightarrow> (Inl err, w')
      | (Inr ret, w') \<Rightarrow>
          if gsn_Status ret \<noteq> ''0'' then (Inl (GetStatusForNumber_error ret), w')
          else
            (let res = gsn_Result ret;
                 status = deliveryStatusText (kdi_DeliveryStatus res);
                 l = FixedZone ''UTC+8'' (8 * 60 * 60);
                 updatedAt = fst (time_ParseInLocation pf ''2006-01-02 15:04:05''
                                    (kdi_UpdateTime res) l);
                 items = map (\<lambda>(t, s).
                           \<lparr>item_Desc = s,
                            item_Time = fst (time_ParseInLocation pf ''2006-01-02 15:04:05'' t l)\<rparr>)
                           (kdi_List res)
             in (Inr \<lparr>status_Code = kdi_Type res,
                      status_Number = kdi_Number res,
                      status_Status = status,
                      status_CompanyName = kdi_ExpName res,
                      status_CompanyLogo = kdi_Logo res,
                      status_CompanyPhone = kdi_ExpPhone res,
                      status_CourierName = kdi_Courier res,
                      status_CourierPhone = kdi_CourierPhone res,
                      status_UpdatedAt = updatedAt,
                      status_TimeElapsed = kdi_TakeTime res,
                      status_Items = items\<rparr>, w')))"

definition MustGetStatusForNumber ::
  "('w, 'b) platform \<Rightarrow> ('b \<Rightarrow> error + GetStatusForNumber_ret) \<Rightarrow> WuliuClient
     \<Rightarrow> string \<Rightarrow> string \<Rightarrow> 'w \<Rightarrow> WuliuStatus or_panic \<times> 'w" where
  "MustGetStatusForNumber pf decode client code no w =
     (case GetStatusForNumber pf decode client code no w of
        (Inl err, w') \<Rightarrow> (Panics err, w')
      | (Inr st, w') \<Rightarrow> (Returns st, w'))"

section \<open>The Market client\<close>

record MarketClient =
  accessKeyId :: string
  accessKeySecret :: string

record MarketProduct =
  product_Id :: string
  product_Name :: string
  product_Remaining :: int
  product_Used :: int
  product_Unit :: string

record MarketProductOption =
  option_Code :: string
  option_Name :: string

record MarketProductDetails =
  details_Id :: string
  details_Name :: string
  details_Description :: string
  details_Options :: "MarketProductOption list"

record MarketProductOptionWithPrice =
  priced_Id :: string
  priced_Code :: string
  priced_Duration :: int
  priced_Cycle :: string
  priced_Price :: string

definition NewMarketClient :: "string \<Rightarrow> string \<Rightarrow> MarketClient" where
  "NewMarketClient keyId keySecret = \<lparr>accessKeyId = keyId, accessKeySecret = keySecret\<rparr>"

text \<open>
  \<^verbatim>\<open>randomString(n)\<close>: a buffer of \<open>n\<close> zero bytes, overwritten by what
  \<^verbatim>\<open>rand.Read\<close> wrote, each byte then replaced by \<^verbatim>\<open>alphanum[b % 62]\<close>.
\<close>

definition alphanum :: string where
  "alphanum = ''0123456789ABCDEFGHIJKLMNOPQRSTUVWXYZabcdefghijklmnopqrstuvwxyz''"

definition randomString :: "('w, 'b) platform \<Rightarrow> nat \<Rightarrow> 'w \<Rightarrow> string \<times> 'w" where
  "randomString pf n w =
     (let (written, w') = rand_Read pf n w;
          bytes = take n written @ replicate (n - length written) 0
      in (map (\<lambda>b. alphanum ! unat (b mod of_nat (length alphanum))) bytes, w'))"

text \<open>The struct \<^verbatim>\<open>err\<close> that \<^verbatim>\<open>request\<close> decodes the body of a failed response into.\<close>

record market_err =
  err_Code :: string
  err_Message :: string

text \<open>
  \<^verbatim>\<open>request\<close> of the Market client, in three steps: the parameters it adds to
  those of its caller, up to the one before the signature; the request it builds
  from the signed parameters (or the error of \<^verbatim>\<open>http.NewRequestWithContext\<close>);
  then the exchange and the decoding of the body. \<open>decode_err\<close> is
  \<^verbatim>\<open>Decode(&err)\<close>: the struct \<^verbatim>\<open>err\<close> as \<^verbatim>\<open>Decode\<close> leaves it, whose own error
  \<^verbatim>\<open>request\<close> drops.
\<close>

definition MarketClient_params ::
  "('w, 'b) platform \<Rightarrow> MarketClient \<Rightarrow> url_Values \<Rightarrow> 'w \<Rightarrow> url_Values \<times> 'w" where
  "MarketClient_params pf client params0 w0 =
     (let (ts, w1) = time_Now pf w0;
          params1 = values_Set params0 ''Format'' ''json'';
          params2 = values_Set params1 ''Version'' ''2015-11-01'';
          params3 = values_Set params2 ''AccessKeyId'' (accessKeyId client);
          params4 = values_Set params3 ''SignatureMethod'' ''HMAC-SHA1'';
          params5 = values_Set params4 ''Timestamp'' ts;
          params6 = values_Set params5 ''SignatureVersion'' ''1.0'';
          (nonce, w2) = randomString pf 64 w1
      in (values_Set params6 ''SignatureNonce'' nonce, w2))"

definition MarketClient_new_request ::
  "('w, 'b) platform \<Rightarrow> MarketClient \<Rightarrow> url_Values \<Rightarrow> 'w \<Rightarrow> (error + http_Request) \<times> 'w" where
  "MarketClient_new_request pf client params0 w0 =
     (let (params7, w2) = MarketClient_params pf client params0 w0;
          signature = request_signature (Crypto pf) (accessKeySecret client) params7;
          params8 = values_Set params7 ''Signature'' signature
      in (http_NewRequestWithContext pf ''GET''
            (''https://market.aliyuncs.com/?'' @ values_Encode params8), w2))"

text \<open>The error \<^verbatim>\<open>request\<close> makes of a response whose status code is not 200.\<close>

definition status_error :: "int \<Rightarrow> market_err \<Rightarrow> error" where
  "status_error code err =
     Errorf (''server responded status '' @ Itoa code @ '' with code '' @ err_Code err
             @ '' and message '' @ err_Message err @ '' returned'')"

definition MarketClient_request ::
  "('w, 'b) platform \<Rightarrow> ('b \<Rightarrow> market_err) \<Rightarrow> ('b \<Rightarrow> error + 'r) \<Rightarrow> MarketClient
     \<Rightarrow> url_Values \<Rightarrow> 'w \<Rightarrow> (error + 'r) \<times> 'w" where
  "MarketClient_request pf decode_err decode client params0 w0 =
     (case MarketClient_new_request pf client params0 w0 of
        (Inl err, w2) \<Rightarrow> (Inl err, w2)
      | (Inr req, w2) \<Rightarrow>
          (case http_Do pf req w2 of
             (Inl err, w3) \<Rightarrow> (Inl err, w3)
           | (Inr resp, w3) \<Rightarrow>
               if StatusCode resp \<noteq> 200 then
                 (let err = decode_err (Body resp)
                  in (Inl (status_error (StatusCode resp) err), w3))
               else (decode (Body resp), w3)))"

subsection \<open>\<^verbatim>\<open>GetProducts\<close>\<close>

record DescribeApiMetering_item =
  am_ProductName :: string
  am_AliyunPk :: int
  am_ProductCode :: string
  am_TotalQuota :: int
  am_TotalUsage :: int
  am_Unit :: string

record DescribeApiMetering_resp =
  am_PageSize :: int
  am_Message :: string
  am_PageNumber :: int
  am_Version :: string
  am_Count :: int
  am_Fatal :: bool
  am_Code :: string
  am_Success :: bool
  am_Result :: "DescribeApiMetering_item list"

text \<open>
  The \<^verbatim>\<open>for\<close> loop of \<^verbatim>\<open>getProducts\<close> over the pages \<open>2, \<dots>, totalPages\<close>;
  \<open>get i\<close> is the recursive call \<^verbatim>\<open>client.getProducts(ctx, i)\<close>, which may not
  return (\<open>None\<close>).
\<close>

fun page_loop ::
  "(int \<Rightarrow> 'w \<Rightarrow> ((error + MarketProduct list) \<times> 'w) option) \<Rightarrow> int list
     \<Rightarrow> MarketProduct list \<Rightarrow> 'w \<Rightarrow> ((error + MarketProduct list) \<times> 'w) option" where
  "page_loop get [] products w = Some (Inr products, w)"
| "page_loop get (i # pages) products w =
     (case get i w of
        None \<Rightarrow> None
      | Some (Inl err, w') \<Rightarrow> Some (Inl err, w')
      | Some (Inr prods, w') \<Rightarrow> page_loop get pages (products @ prods) w')"

text \<open>
  The parameters \<^verbatim>\<open>getProducts\<close> asks a page with, the product it makes of an
  item, and the error it makes of a response whose \<^verbatim>\<open>Success\<close> is false.
\<close>

definition getProducts_params :: "int \<Rightarrow> url_Values" where
  "getProducts_params pageNum =
     values_Set (values_Set (values_Set []
       ''Action'' ''DescribeApiMetering'') ''type'' ''1'') ''pageNum'' (Itoa pageNum)"

definition to_MarketProduct :: "DescribeApiMetering_item \<Rightarrow> MarketProduct" where
  "to_MarketProduct item =
     \<lparr>product_Id = am_ProductCode item,
      product_Name = am_ProductName item,
      product_Remaining = am_TotalQuota item,
      product_Used = am_TotalUsage item,
      product_Unit = am_Unit item\<rparr>"

definition metering_error :: "DescribeApiMetering_resp \<Rightarrow> error" where
  "metering_error resp =
     Errorf (''failed to get metering info: code '' @ am_Code resp
             @ '', message '' @ am_Message resp @ '' returned'')"

text \<open>
  \<^verbatim>\<open>getProducts\<close> calls itself. The first argument bounds the depth of the
  calls: \<open>None\<close> is a run that needs a deeper stack than that, and a run that
  is \<open>None\<close> at every bound never returns. Dividing by a page size of zero
  panics. The loop runs over the pages \<open>2, \<dots>, totalPages\<close>; its counter is taken
  not to overflow, which it would only past \<open>2\<^sup>6\<^sup>3 - 2\<close> calls.
\<close>

primrec getProducts ::
  "nat \<Rightarrow> ('w, 'b) platform \<Rightarrow> ('b \<Rightarrow> market_err) \<Rightarrow> ('b \<Rightarrow> error + DescribeApiMetering_resp)
     \<Rightarrow> MarketClient \<Rightarrow> int \<Rightarrow> 'w \<Rightarrow> ((error + MarketProduct list) \<times> 'w) option" where
  "getProducts 0 pf decode_err decode client = (\<lambda>pageNum w. None)"
| "getProducts (Suc depth) pf decode_err decode client = (\<lambda>pageNum w.
     (let params = getProducts_params pageNum
      in case MarketClient_request pf decode_err decode client params w of
           (Inl err, w') \<Rightarrow> Some (Inl err, w')
         | (Inr resp, w') \<Rightarrow>
             if \<not> am_Success resp then Some (Inl (metering_error resp), w')
             else
               (let products = map to_MarketProduct (am_Result resp)
                in if am_PageSize resp = 0 then
                     Some (Inl (RuntimePanic ''runtime error: integer divide by zero''), w')
                   else
                     (let totalPages = int_quo (am_Count resp) (am_PageSize resp)
                      in page_loop (getProducts depth pf decode_err decode client)
                           [2..totalPages] products w'))))"

definition GetProducts ::
  "nat \<Rightarrow> ('w, 'b) platform \<Rightarrow> ('b \<Rightarrow> market_err) \<Rightarrow> ('b \<Rightarrow> error + DescribeApiMetering_resp)
     \<Rightarrow> MarketClient \<Rightarrow> 'w \<Rightarrow> ((error + MarketProduct list) \<times> 'w) option" where
  "GetProducts depth pf decode_err decode client w =
     getProducts depth pf decode_err decode client 1 w"

subsection \<open>\<^verbatim>\<open>GetProduct\<close>\<close>

text \<open>
  The response struct of \<^verbatim>\<open>GetProduct\<close>; a struct of the source that only wraps
  one slice (\<^verbatim>\<open>ProductSkus\<close>, \<^verbatim>\<open>Modules\<close>, \<^verbatim>\<open>Properties\<close>, \<^verbatim>\<open>PropertyValues\<close>) is
  that slice.
\<close>

record PropertyValue =
  pv_Type :: string
  pv_DisplayName :: string
  pv_Value :: string

record Property =
  prop_PropertyValue :: "PropertyValue list"
  prop_Key :: string

record Module =
  mod_Property :: "Property list"
  mod_Code :: string

record ProductSku =
  sku_ChargeType :: string
  sku_Module :: "Module list"

record DescribeProduct_resp =
  dp_ProductSku :: "ProductSku list"
  dp_Code :: string
  dp_ShortDescription :: string
  dp_Name :: string
  dp_Type :: string

definition GetProduct_params :: "string \<Rightarrow> url_Values" where
  "GetProduct_params ident =
     values_Set (values_Set [] ''Action'' ''DescribeProduct'') ''Code'' ident"

text \<open>The four nested loops of \<^verbatim>\<open>GetProduct\<close>, and the struct it returns.\<close>

definition to_MarketProductDetails :: "DescribeProduct_resp \<Rightarrow> MarketProductDetails" where
  "to_MarketProductDetails resp =
     (let options =
        concat (map (\<lambda>sku.
          concat (map (\<lambda>module.
            if mod_Code module = ''package_version'' then
              concat (map (\<lambda>opt.
                if prop_Key opt = ''package_version'' then
                  map (\<lambda>v. \<lparr>option_Code = pv_Value v, option_Name = pv_DisplayName v\<rparr>)
                      (prop_PropertyValue opt)
                else []) (mod_Property module))
            else []) (sku_Module sku))) (dp_ProductSku resp))
      in \<lparr>details_Id = dp_Code resp,
          details_Name = dp_Name resp,
          details_Description = dp_ShortDescription resp,
          details_Options = options\<rparr>)"

definition GetProduct ::
  "('w, 'b) platform \<Rightarrow> ('b \<Rightarrow> market_err) \<Rightarrow> ('b \<Rightarrow> error + DescribeProduct_resp)
     \<Rightarrow> MarketClient \<Rightarrow> string \<Rightarrow> 'w \<Rightarrow> (error + MarketProductDetails) \<times> 'w" where
  "GetProduct pf decode_err decode client ident w =
     (case MarketClient_request pf decode_err decode client (GetProduct_params ident) w of
        (Inl err, w') \<Rightarrow> (Inl err, w')
      | (Inr resp, w') \<Rightarrow> (Inr (to_MarketProductDetails resp), w'))"

subsection \<open>\<^verbatim>\<open>GetPrice\<close>\<close>

record DescribePrice_resp =
  price_ProductCode :: string
  price_TradePrice :: float64
  price_OriginalPrice :: float64
  price_DiscountPrice :: float64
  price_Currency :: string
  price_Duration :: int
  price_Cycle :: string

text \<open>
  \<^verbatim>\<open>json.Marshal\<close> of the commodity struct writes its fields in order, each key
  and each string value quoted by \<open>json_Marshal_string\<close>.
\<close>

definition GetPrice_params :: "('w, 'b) platform \<Rightarrow> string \<Rightarrow> string \<Rightarrow> url_Values" where
  "GetPrice_params pf ident opt =
     (let commodity = ''{'' @ json_Marshal_string pf ''components'' @ '':{''
                        @ json_Marshal_string pf ''package_version'' @ '':''
                        @ json_Marshal_string pf opt @ ''},''
                        @ json_Marshal_string pf ''productCode'' @ '':''
                        @ json_Marshal_string pf ident @ ''}''
      in values_Set (values_Set (values_Set []
           ''Action'' ''DescribePrice'') ''OrderType'' ''INSTANCE_BUY'')
           ''Commodity'' commodity)"

definition GetPrice ::
  "('w, 'b) platform \<Rightarrow> ('b \<Rightarrow> market_err) \<Rightarrow> ('b \<Rightarrow> error + DescribePrice_resp)
     \<Rightarrow> MarketClient \<Rightarrow> string \<Rightarrow> string \<Rightarrow> 'w
     \<Rightarrow> (error + MarketProductOptionWithPrice) \<times> 'w" where
  "GetPrice pf decode_err decode client ident opt w =
     (case MarketClient_request pf decode_err decode client (GetPrice_params pf ident opt) w of
        (Inl err, w') \<Rightarrow> (Inl err, w')
      | (Inr resp, w') \<Rightarrow>
             (Inr \<lparr>priced_Id = ident,
                   priced_Code = opt,
                   priced_Duration = price_Duration resp,
                   priced_Cycle = price_Cycle resp,
                   priced_Price = fmt_Sprintf_2f pf (price_TradePrice resp)\<rparr>, w'))"

subsection \<open>\<^verbatim>\<open>CreateOrder\<close>\<close>

text \<open>
  A value of type \<^verbatim>\<open>interface{}\<close>, as far as \<^verbatim>\<open>CreateOrder\<close> tells values
  apart: a string, or a value of another dynamic type (here an integer, a
  boolean or \<^verbatim>\<open>nil\<close>), on which the assertion \<^verbatim>\<open>.(string)\<close> fails.
\<close>

datatype any = String string | Integer int | Boolean bool | Untyped_nil

definition as_string :: "any \<Rightarrow> string option" where
  "as_string x = (case x of String s \<Rightarrow> Some s | _ \<Rightarrow> None)"

text \<open>
  The loop of \<^verbatim>\<open>CreateOrder\<close> over \<open>i = 0, \<dots>, len(overrides)/2 - 1\<close>; both
  indices \<open>2 * i\<close> and \<open>2 * i + 1\<close> are within the slice.
\<close>

definition apply_overrides :: "url_Values \<Rightarrow> any list \<Rightarrow> url_Values" where
  "apply_overrides params overrides =
     foldl (\<lambda>ps i.
              case as_string (overrides ! (2 * i)) of
                Some a \<Rightarrow>
                  (case as_string (overrides ! (2 * i + 1)) of
                     Some b \<Rightarrow> values_Set ps a b
                   | None \<Rightarrow> ps)
              | None \<Rightarrow> ps)
           params [0 ..< length overrides div 2]"

record CreateOrder_resp =
  order_OrderId :: string

text \<open>
  The parameters of \<^verbatim>\<open>CreateOrder\<close> as it hands them to \<^verbatim>\<open>request\<close>; \<open>token\<close>
  is the random client token.
\<close>

definition CreateOrder_params ::
  "('w, 'b) platform \<Rightarrow> string \<Rightarrow> MarketProductOptionWithPrice \<Rightarrow> any list \<Rightarrow> url_Values" where
  "CreateOrder_params pf token opt overrides =
     (let params1 = values_Set [] ''Action'' ''CreateOrder'';
          params2 = values_Set params1 ''ClientToken'' token;
          params3 = values_Set params2 ''OrderType'' ''INSTANCE_BUY'';
          params4 = values_Set params3 ''PaymentType'' ''AUTO'';
          commodity = ''{'' @ json_Marshal_string pf ''components'' @ '':{''
                        @ json_Marshal_string pf ''package_version'' @ '':''
                        @ json_Marshal_string pf (priced_Code opt) @ ''},''
                        @ json_Marshal_string pf ''skuCode'' @ '':''
                        @ json_Marshal_string pf ''prepay'' @ '',''
                        @ json_Marshal_string pf ''duration'' @ '':''
                        @ Itoa (priced_Duration opt) @ '',''
                        @ json_Marshal_string pf ''pricingCycle'' @ '':''
                        @ json_Marshal_string pf (priced_Cycle opt) @ '',''
                        @ json_Marshal_string pf ''productCode'' @ '':''
                        @ json_Marshal_string pf (priced_Id opt) @ ''}'';
          params5 = values_Set params4 ''Commodity'' commodity
      in apply_overrides params5 overrides)"

definition CreateOrder ::
  "('w, 'b) platform \<Rightarrow> ('b \<Rightarrow> market_err) \<Rightarrow> ('b \<Rightarrow> error + CreateOrder_resp)
     \<Rightarrow> MarketClient \<Rightarrow> MarketProductOptionWithPrice \<Rightarrow> any list \<Rightarrow> 'w
     \<Rightarrow> (error + string) \<times> 'w" where
  "CreateOrder pf decode_err decode client opt overrides w0 =
     (let (token, w1) = randomString pf 64 w0;
          params = CreateOrder_params pf token opt overrides;
          w2 = fmt_Println pf params w1
      in case MarketClient_request pf decode_err decode client params w2 of
           (Inl err, w3) \<Rightarrow> (Inl err, w3)
         | (Inr resp, w3) \<Rightarrow> (Inr (order_OrderId resp), w3))"

section \<open>Reference definitions\<close>

subsection \<open>The documented signature\<close>

text \<open>
  The signature as the vendor documents it, over the parameters as a map from
  keys to values. \<open>percentEncode\<close> is URL query escaping, but with a space
  encoded as \<^verbatim>\<open>%20\<close>; the canonical query lists every parameter but
  \<^verbatim>\<open>Signature\<close>, in ascending order of the keys, as \<^verbatim>\<open>key=value\<close> with both
  percent-encoded, joined by \<^verbatim>\<open>&\<close>; the signature is the base64 text of the
  HMAC-SHA1, under the key \<^verbatim>\<open>secret&\<close>, of \<^verbatim>\<open>GET&%2F&\<close> followed by the
  percent-encoded canonical query.
\<close>

definition percentEncode :: "string \<Rightarrow> string" where
  "percentEncode s =
     concat (map (\<lambda>c. if c = CHR '' '' then ''%20'' else url_QueryEscape [c]) s)"

definition canonicalQuery :: "(string \<rightharpoonup> string) \<Rightarrow> string" where
  "canonicalQuery m =
     strings_Join
       (map (\<lambda>key. percentEncode key @ ''='' @ percentEncode (the (m key)))
            (sorted_list_of_set (dom m - {''Signature''})))
       ''&''"

definition documented_signature :: "crypto \<Rightarrow> string \<Rightarrow> (string \<rightharpoonup> string) \<Rightarrow> string" where
  "documented_signature cr secret m =
     base64_StdEncoding cr
       (hmac_sha1 cr (secret @ ''&'') (''GET&%2F&'' @ percentEncode (canonicalQuery m)))"

text \<open>The map a \<^verbatim>\<open>url.Values\<close> stands for: each key with the value \<^verbatim>\<open>Get\<close> reads.\<close>

definition parameters :: "url_Values \<Rightarrow> (string \<rightharpoonup> string)" where
  "parameters v =
     (\<lambda>key. case map_of v key of None \<Rightarrow> None | Some vals \<Rightarrow> Some (values_Get v key))"

subsection \<open>A world for running the clients\<close>

text \<open>
  A world whose state is the list of the requests sent so far, and whose network
  gives every request the same answer: an error, or a response. Its clock is
  stopped, its random source writes zero bytes, its HMAC and base64 keep their
  input readable, and its \<^verbatim>\<open>json.Marshal\<close> puts a string between quotes as it
  is, which is what the library does for the strings used here: none holds a
  character to escape. \<open>lab_platform resp\<close> is the world whose server
  answers every request with the response \<open>resp\<close>.
\<close>

definition plain_crypto :: crypto where
  "plain_crypto =
     \<lparr>hmac_sha1 = (\<lambda>key msg. key @ '':'' @ msg), base64_StdEncoding = (\<lambda>s. s)\<rparr>"

definition answering_platform ::
  "error + 'b http_Response \<Rightarrow> (http_Request list, 'b) platform" where
  "answering_platform answer =
     \<lparr>http_NewRequestWithContext = (\<lambda>m u. Inr \<lparr>Method = m, URL = u, Header = []\<rparr>),
      http_Do = (\<lambda>req log. (answer, log @ [req])),
      time_Now = (\<lambda>log. (''2024-05-06T07:08:09Z'', log)),
      rand_Read = (\<lambda>n log. (replicate n 0, log)),
      time_Parse = (\<lambda>layout val l. Inl (Underlying ''parsing time'')),
      json_Marshal_string = (\<lambda>s. [CHR 0x22] @ s @ [CHR 0x22]),
      fmt_Sprintf_2f = (\<lambda>f. ''0.00''),
      fmt_Println = (\<lambda>v log. log),
      Crypto = plain_crypto\<rparr>"

definition lab_platform :: "'b http_Response \<Rightarrow> (http_Request list, 'b) platform" where
  "lab_platform resp = answering_platform (Inr resp)"


text \<open>A decoder for a body that decodes, without error, to the struct \<open>r\<close>.\<close>

definition decode_as :: "'r \<Rightarrow> 'b \<Rightarrow> error + 'r" where
  "decode_as r body = Inr r"

text \<open>
  A successful page of \<^verbatim>\<open>DescribeApiMetering\<close> with the given total count, page
  size and items; and the request for a page that \<^verbatim>\<open>getProducts\<close> sends in
  this world.
\<close>

definition metering_page ::
  "int \<Rightarrow> int \<Rightarrow> DescribeApiMetering_item list \<Rightarrow> DescribeApiMetering_resp" where
  "metering_page count pageSize items =
     \<lparr>am_PageSize = pageSize, am_Message = [], am_PageNumber = 1, am_Version = [],
      am_Count = count, am_Fatal = False, am_Code = [], am_Success = True, am_Result = items\<rparr>"

definition page_request :: "MarketClient \<Rightarrow> int \<Rightarrow> http_Request" where
  "page_request client pageNum =
     (case fst (MarketClient_new_request (lab_platform \<lparr>StatusCode = 200, Body = ()\<rparr>) client
                  (getProducts_params pageNum) []) of
        Inr req \<Rightarrow> req)"

text \<open>
  The layout and the zone \<^verbatim>\<open>GetStatusForNumber\<close> parses its times with; a decoded
  response of \<^verbatim>\<open>/kdi\<close> with the given delivery status, whose two times are
  malformed; and the request the Wuliu client sends for a path in the world of
  \<open>lab_platform\<close>.
\<close>

definition kdi_layout :: string where
  "kdi_layout = ''2006-01-02 15:04:05''"

definition kdi_zone :: Location where
  "kdi_zone = FixedZone ''UTC+8'' (8 * 60 * 60)"

definition kdi_example :: "string \<Rightarrow> GetStatusForNumber_ret" where
  "kdi_example deliveryStatus =
     \<lparr>gsn_Status = ''0'', gsn_Message = ''ok'',
      gsn_Result =
        \<lparr>kdi_Number = ''1'', kdi_Type = ''sf'', kdi_List = [(''not a time'', ''picked up'')],
         kdi_DeliveryStatus = deliveryStatus, kdi_IsSign = ''0'', kdi_ExpName = ''SF'',
         kdi_ExpSite = [], kdi_ExpPhone = [], kdi_Courier = [], kdi_CourierPhone = [],
         kdi_UpdateTime = ''yesterday'', kdi_TakeTime = [], kdi_Logo = []\<rparr>\<rparr>"

definition wuliu_lab_request :: "WuliuClient \<Rightarrow> string \<Rightarrow> http_Request" where
  "wuliu_lab_request client path =
     \<lparr>Method = ''GET'', URL = ''https://wuliu.market.alicloudapi.com'' @ path,
      Header = [(''Authorization'', [''APPCODE '' @ AppCode client])]\<rparr>"

text \<open>
  A decoded response of \<^verbatim>\<open>/getExpressList\<close> with three carriers, visited out of
  order, and the provider list in the order of the codes.
\<close>

definition express_list :: GetProviders_ret where
  "express_list =
     \<lparr>gp_Status = ''200'', gp_Message = ''ok'',
      gp_Result = [(''zto'', ''ZTO''), (''ems'', ''EMS''), (''sf'', ''SF'')]\<rparr>"

definition sorted_express_list :: "WuliuProvider list" where
  "sorted_express_list =
     [\<lparr>provider_Code = ''ems'', provider_Name = ''EMS''\<rparr>,
      \<lparr>provider_Code = ''sf'', provider_Name = ''SF''\<rparr>,
      \<lparr>provider_Code = ''zto'', provider_Name = ''ZTO''\<rparr>]"

subsection \<open>The overrides of \<^verbatim>\<open>CreateOrder\<close>, pair by pair\<close>

text \<open>
  The overrides read as consecutive pairs of a key and a value: a pair of two
  strings is set on the parameters, a pair with an element that is not a string
  is skipped, and so is an element left over at the end.
\<close>

fun set_string_pairs :: "url_Values \<Rightarrow> any list \<Rightarrow> url_Values" where
  "set_string_pairs params (String a # String b # rest) =
     set_string_pairs (values_Set params a b) rest"
| "set_string_pairs params (x # y # rest) = set_string_pairs params rest"
| "set_string_pairs params rest = params"

text \<open>One iteration of the loop of \<^verbatim>\<open>CreateOrder\<close>, on the elements \<open>x\<close> and \<open>y\<close>.\<close>

definition override_step :: "url_Values \<Rightarrow> any \<Rightarrow> any \<Rightarrow> url_Values" where
  "override_step ps x y =
     (case as_string x of
        Some a \<Rightarrow> (case as_string y of Some b \<Rightarrow> values_Set ps a b | None \<Rightarrow> ps)
      | None \<Rightarrow> ps)"

subsection \<open>Passing on the error of a request\<close>

text \<open>
  An operation passes on the error of its request when, the request having
  failed, it returns that same error and the world the request left.
\<close>

definition passes_on_error ::
  "(error + 'r) \<times> 'w \<Rightarrow> ((error + 'a) \<times> 'w) option \<Rightarrow> bool" where
  "passes_on_error request_result result =
     (case request_result of
        (Inl err, w') \<Rightarrow> result = Some (Inl err, w')
      | (Inr resp, w') \<Rightarrow> True)"

subsection \<open>Failed exchanges\<close>

text \<open>
  A body with the keys \<^verbatim>\<open>Success\<close>, \<^verbatim>\<open>Code\<close> and \<^verbatim>\<open>Message\<close>, the three that
  \<^verbatim>\<open>getProducts\<close> reads of a failure and of which \<^verbatim>\<open>request\<close> reads the last two
  when the status code is not 200; and what \<^verbatim>\<open>Decode\<close> makes of such a body in
  each target struct of the Market client: a field of the struct takes the value
  of the key it is tagged with, every other field keeps its zero value.
\<close>

record failure_body =
  fb_Success :: bool
  fb_Code :: string
  fb_Message :: string


definition failure_as_err :: "failure_body \<Rightarrow> market_err" where
  "failure_as_err body = \<lparr>err_Code = fb_Code body, err_Message = fb_Message body\<rparr>"


definition failure_as_product :: "failure_body \<Rightarrow> DescribeProduct_resp" where
  "failure_as_product body =
     \<lparr>dp_ProductSku = [], dp_Code = fb_Code body, dp_ShortDescription = [], dp_Name = [],
      dp_Type = []\<rparr>"





definition timeout_error :: error where
  "timeout_error = Underlying ''dial tcp: i/o timeout''"




section \<open>Properties of the request signature\<close>

lemma strings_Replace_byte:
  "strings_Replace s [b] new = concat (map (\<lambda>c. if c = b then new else [c]) s)"
  by (induction s) auto

lemma upperhex_not_plus: "n < 16 \<Longrightarrow> upperhex n \<noteq> CHR ''+''"
  by (auto simp: upperhex_def nth_Cons' less_Suc_eq numeral_eq_Suc)

lemma of_char_div_16: "(of_char c :: nat) div 16 < 16"
proof -
  have "(of_char c :: nat) < 256" by simp
  then show ?thesis by presburger
qed

text \<open>
  \<^verbatim>\<open>QueryEscape\<close> writes a \<^verbatim>\<open>+\<close> for a space and for nothing else (a \<^verbatim>\<open>+\<close> of the
  input becomes \<^verbatim>\<open>%2B\<close>), so replacing \<^verbatim>\<open>+\<close> afterwards re-encodes the spaces only.
\<close>

lemma escape_byte_Replace:
  "concat (map (\<lambda>c. if c = CHR ''+'' then ''%20'' else [c]) (escape_byte c))
     = (if c = CHR '' '' then ''%20'' else escape_byte c)"
  using upperhex_not_plus [OF of_char_div_16, of c] upperhex_not_plus [of "of_char c mod 16"]
  by (auto simp: escape_byte_def shouldEscape_def)

lemma urlEncode_percentEncode: "urlEncode s = percentEncode s"
proof (induction s)
  case Nil
  show ?case by (simp add: urlEncode_def percentEncode_def url_QueryEscape_def)
next
  case (Cons c s)
  then show ?case
    using escape_byte_Replace [of c]
    by (simp add: urlEncode_def percentEncode_def url_QueryEscape_def strings_Replace_byte)
qed

lemma dom_parameters: "dom (parameters v) = fst ` set v"
  by (auto simp: parameters_def dom_def map_of_eq_None_iff split: option.splits)

lemma keys_sorted:
  assumes "distinct (map fst params)"
  shows "sort (filter (\<lambda>key. key \<noteq> ''Signature'') (map fst params))
           = sorted_list_of_set (dom (parameters params) - {''Signature''})"
proof -
  let ?ks = "filter (\<lambda>key. key \<noteq> ''Signature'') (map fst params)"
  have "dom (parameters params) - {''Signature''} = set ?ks"
    by (auto simp: dom_parameters)
  moreover have "distinct ?ks" using assms by simp
  ultimately show ?thesis
    by (simp add: sorted_list_of_set_sort_remdups distinct_remdups_id del: set_filter)
qed

lemma the_parameters:
  "key \<in> fst ` set params \<Longrightarrow> the (parameters params key) = values_Get params key"
  by (auto simp: parameters_def map_of_eq_None_iff split: option.splits)

lemma buildQueryString_canonicalQuery:
  assumes "distinct (map fst params)"
  shows "buildQueryString params = canonicalQuery (parameters params)"
proof -
  let ?ks = "sort (filter (\<lambda>key. key \<noteq> ''Signature'') (map fst params))"
  have eq: "map (\<lambda>key. urlEncode key @ ''='' @ urlEncode (values_Get params key)) ?ks
      = map (\<lambda>key. percentEncode key @ ''='' @ percentEncode (the (parameters params key))) ?ks"
    by (rule map_cong) (auto simp: urlEncode_percentEncode the_parameters)
  show ?thesis
    by (simp only: buildQueryString_def canonicalQuery_def Let_def
          keys_sorted [OF assms, symmetric] eq)
qed

text \<open>Every \<^verbatim>\<open>url.Values\<close> the package builds has distinct keys: \<^verbatim>\<open>Set\<close> keeps them so.\<close>

lemma distinct_values_Set:
  "distinct (map fst v) \<Longrightarrow> distinct (map fst (values_Set v key val))"
  by (simp add: values_Set_def distinct_update)

text \<open>
  C3. For every parameter map and every secret, the signature that \<^verbatim>\<open>request\<close>
  computes is the documented one: base64 of the HMAC-SHA1, keyed with the secret
  followed by \<^verbatim>\<open>&\<close>, of \<^verbatim>\<open>GET&%2F&\<close> and the percent-encoded canonical query; the
  canonical query lists all parameters but \<^verbatim>\<open>Signature\<close> in ascending key
  order, percent-encoded and joined by \<^verbatim>\<open>&\<close>, and a space is encoded as \<^verbatim>\<open>%20\<close>.
\<close>

theorem request_signature_documented:
  assumes "distinct (map fst params)"
  shows "request_signature cr secret params
           = documented_signature cr secret (parameters params)"
  by (simp add: request_signature_def documented_signature_def sign_def
        urlEncode_percentEncode buildQueryString_canonicalQuery [OF assms])

text \<open>
  The code's signature of a small parameter map, computed; the pair
  \<^verbatim>\<open>Signature\<close> is left out, the space is \<^verbatim>\<open>%20\<close> and the \<^verbatim>\<open>+\<close> is \<^verbatim>\<open>%2B\<close>,
  both encoded a second time with the whole query.
\<close>

lemma request_signature_example:
  "request_signature plain_crypto ''secret''
     [(''Code'', [''cmapi 1'']), (''Signature'', [''x'']), (''Action'', [''Describe+Product''])]
   = ''secret&:GET&%2F&Action%3DDescribe%252BProduct%26Code%3Dcmapi%25201''"
  by (simp add: request_signature_def sign_def plain_crypto_def buildQueryString_def
        urlEncode_def url_QueryEscape_def escape_byte_def shouldEscape_def upperhex_def
        values_Get_def)

theorem request_signature_documented_witness:
  "distinct (map fst [(''Code'', [''cmapi 1'']), (''Signature'', [''x'']),
                      (''Action'', [''Describe+Product''])])
   \<and> documented_signature plain_crypto ''secret''
        (parameters [(''Code'', [''cmapi 1'']), (''Signature'', [''x'']),
                     (''Action'', [''Describe+Product''])])
      = ''secret&:GET&%2F&Action%3DDescribe%252BProduct%26Code%3Dcmapi%25201''"
  using request_signature_documented
    [of "[(''Code'', [''cmapi 1'']), (''Signature'', [''x'']), (''Action'', [''Describe+Product''])]"
        plain_crypto "''secret''"]
  by (simp add: request_signature_example)

section \<open>Properties of the page walk\<close>

text \<open>In the world of \<open>lab_platform\<close> every request is built, sent and answered.\<close>

lemma lab_new_request:
  "\<exists>req. MarketClient_new_request (lab_platform resp) client params log = (Inr req, log)"
  by (simp add: MarketClient_new_request_def MarketClient_params_def randomString_def
        lab_platform_def answering_platform_def split_def Let_def)

lemma lab_request:
  "\<exists>req. MarketClient_request (lab_platform resp) decode_err decode client params log
     = (if StatusCode resp \<noteq> 200
        then Inl (status_error (StatusCode resp) (decode_err (Body resp)))
        else decode (Body resp), log @ [req])"
proof -
  obtain req where
    "MarketClient_new_request (lab_platform resp) client params log = (Inr req, log)"
    using lab_new_request by blast
  then show ?thesis
    by (simp add: MarketClient_request_def lab_platform_def answering_platform_def Let_def)
qed

text \<open>
  The bound on the depth only cuts runs short: a run that returns within a
  bound returns the same within every greater one.
\<close>

lemma page_loop_mono:
  assumes "\<And>i w r. get i w = Some r \<Longrightarrow> get' i w = Some r"
    and "page_loop get pages products w = Some r"
  shows "page_loop get' pages products w = Some r"
  using assms(2)
proof (induction pages arbitrary: products w)
  case Nil
  then show ?case by simp
next
  case (Cons i pages)
  then show ?case
    by (auto simp: assms(1) split: option.splits prod.splits sum.splits)
qed

text \<open>One call of \<^verbatim>\<open>getProducts\<close>, with the recursive calls one level down.\<close>

lemma getProducts_Suc:
  "getProducts (Suc depth) pf decode_err decode client pageNum w =
     (case MarketClient_request pf decode_err decode client (getProducts_params pageNum) w of
        (Inl err, w') \<Rightarrow> Some (Inl err, w')
      | (Inr resp, w') \<Rightarrow>
          if \<not> am_Success resp then Some (Inl (metering_error resp), w')
          else if am_PageSize resp = 0 then
            Some (Inl (RuntimePanic ''runtime error: integer divide by zero''), w')
          else page_loop (getProducts depth pf decode_err decode client)
                 [2..int_quo (am_Count resp) (am_PageSize resp)]
                 (map to_MarketProduct (am_Result resp)) w')"
  by (simp add: Let_def split: prod.splits sum.splits)

lemma getProducts_deeper:
  "getProducts depth pf decode_err decode client pageNum w = Some r
     \<Longrightarrow> getProducts (Suc depth) pf decode_err decode client pageNum w = Some r"
proof (induction depth arbitrary: pageNum w r)
  case 0
  then show ?case by simp
next
  case (Suc depth)
  have step: "page_loop (getProducts depth pf decode_err decode client) pages products w1 = Some r
        \<Longrightarrow> page_loop (getProducts (Suc depth) pf decode_err decode client) pages products w1
              = Some r" for pages products w1
    by (rule page_loop_mono [where get = "getProducts depth pf decode_err decode client"])
       (rule Suc.IH)
  from Suc.prems show ?case
    by (simp only: getProducts_Suc [of "Suc depth"] getProducts_Suc [of depth])
       (auto simp del: getProducts.simps simp: step split: prod.splits sum.splits if_splits)
qed

text \<open>
  When every page request is answered by the same successful response, and that
  response announces two pages or more, the call for page 2 calls itself for
  page 2: no depth of the stack is enough, \<^verbatim>\<open>getProducts\<close> never returns.
\<close>

lemma getProducts_never_returns:
  assumes "am_Success r" and "am_PageSize r \<noteq> 0"
    and "2 \<le> int_quo (am_Count r) (am_PageSize r)"
  shows "getProducts depth (lab_platform \<lparr>StatusCode = 200, Body = body\<rparr>) decode_err
           (decode_as r) client pageNum log = None"
proof (induction depth arbitrary: pageNum log)
  case 0
  show ?case by simp
next
  case (Suc depth)
  obtain req where req:
    "MarketClient_request (lab_platform \<lparr>StatusCode = 200, Body = body\<rparr>) decode_err
       (decode_as r) client (getProducts_params pageNum) log = (Inr r, log @ [req])"
    using lab_request [of "\<lparr>StatusCode = 200, Body = body\<rparr>" decode_err "decode_as r" client
                          "getProducts_params pageNum" log]
    by (auto simp: decode_as_def)
  have pages: "[2..int_quo (am_Count r) (am_PageSize r)]
                 = 2 # [3..int_quo (am_Count r) (am_PageSize r)]"
    using assms(3) by (simp add: upto_rec1)
  show ?case
    using assms(1,2) by (simp add: req pages Suc.IH Let_def)
qed

text \<open>
  C1 (the code at the failing input). The server answers every page request
  with the same successful response, of total count 20 and page size 10, so
  that \<open>Count > PageSize > 0\<close>. Whatever the depth allowed to the recursion,
  \<^verbatim>\<open>GetProducts\<close> does not return: it neither terminates nor aggregates.
\<close>

theorem GetProducts_two_full_pages_never_returns:
  "GetProducts depth (lab_platform \<lparr>StatusCode = 200, Body = ()\<rparr>)
     (\<lambda>body. \<lparr>err_Code = [], err_Message = []\<rparr>) (decode_as (metering_page 20 10 items))
     client [] = None"
  unfolding GetProducts_def
  by (rule getProducts_never_returns) (simp_all add: metering_page_def int_quo_def)

text \<open>
  C2 (the code at the failing input). The server answers with a total count of
  15 and a page size of 10: the smallest \<open>n\<close> with \<open>n * 10 \<ge> 15\<close> is 2, but the
  quotient \<open>15 / 10\<close> is 1, so \<^verbatim>\<open>GetProducts\<close> sends the request for page 1 and
  no other, and returns the items of that one page.
\<close>

theorem GetProducts_partial_last_page:
  "GetProducts (Suc depth) (lab_platform \<lparr>StatusCode = 200, Body = ()\<rparr>)
     (\<lambda>body. \<lparr>err_Code = [], err_Message = []\<rparr>) (decode_as (metering_page 15 10 items))
     client []
   = Some (Inr (map to_MarketProduct items), [page_request client 1])"
proof -
  let ?pf = "lab_platform \<lparr>StatusCode = 200, Body = ()\<rparr> :: (http_Request list, unit) platform"
  obtain req where
    nr: "MarketClient_new_request ?pf client (getProducts_params 1) [] = (Inr req, [])"
    using lab_new_request by blast
  then have pr: "page_request client 1 = req"
    by (simp add: page_request_def)
  have "MarketClient_request ?pf (\<lambda>body. \<lparr>err_Code = [], err_Message = []\<rparr>)
          (decode_as (metering_page 15 10 items)) client (getProducts_params 1) []
        = (Inr (metering_page 15 10 items), [req])"
    using nr by (simp add: MarketClient_request_def lab_platform_def answering_platform_def decode_as_def)
  then show ?thesis
    by (simp add: GetProducts_def pr metering_page_def int_quo_def Let_def)
qed

text \<open>
  The request for page 1 in this world, for the client with the key \<^verbatim>\<open>id\<close> and
  the secret \<^verbatim>\<open>secret\<close>: its query holds \<^verbatim>\<open>pageNum=1\<close>, and the signature (here the
  readable key and text of \<open>plain_crypto\<close>) is made over the sorted parameters,
  percent-encoded twice.
\<close>

lemma page_request_URL:
  "URL (page_request (NewMarketClient ''id'' ''secret'') 1) =
     ''https://market.aliyuncs.com/?AccessKeyId=id&Action=DescribeApiMetering&Format=json''
     @ ''&Signature=secret%26%3AGET%26%252F%26AccessKeyId%253Did''
     @ ''%2526Action%253DDescribeApiMetering%2526Format%253Djson''
     @ ''%2526SignatureMethod%253DHMAC-SHA1%2526SignatureNonce%253D''
     @ ''0000000000000000000000000000000000000000000000000000000000000000''
     @ ''%2526SignatureVersion%253D1.0%2526Timestamp%253D2024-05-06T07%25253A08%25253A09Z''
     @ ''%2526Version%253D2015-11-01%2526pageNum%253D1%2526type%253D1''
     @ ''&SignatureMethod=HMAC-SHA1&SignatureNonce=''
     @ ''0000000000000000000000000000000000000000000000000000000000000000''
     @ ''&SignatureVersion=1.0&Timestamp=2024-05-06T07%3A08%3A09Z''
     @ ''&Version=2015-11-01&pageNum=1&type=1''"
  by code_simp

section \<open>Properties of \<^verbatim>\<open>GetStatusForNumber\<close>\<close>

lemma lab_WuliuClient_request:
  "WuliuClient_request (lab_platform resp) decode client path log
     = (decode (Body resp), log @ [wuliu_lab_request client path])"
  by (simp add: WuliuClient_request_def WuliuClient_new_request_def lab_platform_def answering_platform_def
        wuliu_lab_request_def)

lemma GetStatusForNumber_success:
  assumes "WuliuClient_request pf decode client (kdi_path code no) w = (Inr ret, w')"
    and "gsn_Status ret = ''0''"
  shows "GetStatusForNumber pf decode client code no w =
     (Inr \<lparr>status_Code = kdi_Type (gsn_Result ret),
           status_Number = kdi_Number (gsn_Result ret),
           status_Status = deliveryStatusText (kdi_DeliveryStatus (gsn_Result ret)),
           status_CompanyName = kdi_ExpName (gsn_Result ret),
           status_CompanyLogo = kdi_Logo (gsn_Result ret),
           status_CompanyPhone = kdi_ExpPhone (gsn_Result ret),
           status_CourierName = kdi_Courier (gsn_Result ret),
           status_CourierPhone = kdi_CourierPhone (gsn_Result ret),
           status_UpdatedAt = fst (time_ParseInLocation pf kdi_layout
                                     (kdi_UpdateTime (gsn_Result ret)) kdi_zone),
           status_TimeElapsed = kdi_TakeTime (gsn_Result ret),
           status_Items = map (\<lambda>(t, s). \<lparr>item_Desc = s,
                                 item_Time = fst (time_ParseInLocation pf kdi_layout t kdi_zone)\<rparr>)
                              (kdi_List (gsn_Result ret))\<rparr>, w')"
  using assms by (simp add: GetStatusForNumber_def Let_def kdi_layout_def kdi_zone_def)

lemma time_ParseInLocation_fails:
  "isl (time_Parse pf layout val l) \<Longrightarrow> fst (time_ParseInLocation pf layout val l) = zero_Time"
  by (cases "time_Parse pf layout val l") (simp_all add: time_ParseInLocation_def)

text \<open>
  C9. \<^verbatim>\<open>GetStatusForNumber\<close> never fails because of a malformed timestamp: when
  the request succeeds and the vendor's status is \<^verbatim>\<open>"0"\<close>, the call succeeds; if
  \<^verbatim>\<open>UpdateTime\<close> does not parse in the layout \<^verbatim>\<open>2006-01-02 15:04:05\<close>, \<^verbatim>\<open>UpdatedAt\<close>
  is the zero time; there is one item per entry of the history, and an item
  whose time does not parse has the zero time.
\<close>

theorem GetStatusForNumber_malformed_time:
  assumes "WuliuClient_request pf decode client (kdi_path code no) w = (Inr ret, w')"
    and "gsn_Status ret = ''0''"
  shows "\<exists>st. GetStatusForNumber pf decode client code no w = (Inr st, w')
     \<and> (isl (time_Parse pf kdi_layout (kdi_UpdateTime (gsn_Result ret)) kdi_zone)
          \<longrightarrow> status_UpdatedAt st = zero_Time)
     \<and> length (status_Items st) = length (kdi_List (gsn_Result ret))
     \<and> (\<forall>i < length (kdi_List (gsn_Result ret)).
           item_Desc (status_Items st ! i) = snd (kdi_List (gsn_Result ret) ! i)
           \<and> (isl (time_Parse pf kdi_layout (fst (kdi_List (gsn_Result ret) ! i)) kdi_zone)
                \<longrightarrow> item_Time (status_Items st ! i) = zero_Time))"
  by (simp add: GetStatusForNumber_success [OF assms] time_ParseInLocation_fails split_def)

theorem GetStatusForNumber_malformed_time_witness:
  "WuliuClient_request (lab_platform \<lparr>StatusCode = 200, Body = ()\<rparr>) (decode_as (kdi_example ''3''))
      (NewWuliuClient ''code'') (kdi_path ''sf'' ''1'') []
     = (Inr (kdi_example ''3''), [wuliu_lab_request (NewWuliuClient ''code'') (kdi_path ''sf'' ''1'')])
   \<and> gsn_Status (kdi_example ''3'') = ''0''
   \<and> isl (time_Parse (lab_platform \<lparr>StatusCode = 200, Body = ()\<rparr>) kdi_layout ''yesterday'' kdi_zone)
   \<and> isl (time_Parse (lab_platform \<lparr>StatusCode = 200, Body = ()\<rparr>) kdi_layout ''not a time'' kdi_zone)
   \<and> (\<exists>st. GetStatusForNumber (lab_platform \<lparr>StatusCode = 200, Body = ()\<rparr>)
              (decode_as (kdi_example ''3'')) (NewWuliuClient ''code'') ''sf'' ''1'' []
            = (Inr st, [wuliu_lab_request (NewWuliuClient ''code'') (kdi_path ''sf'' ''1'')])
          \<and> status_UpdatedAt st = zero_Time
          \<and> map item_Time (status_Items st) = [zero_Time])"
proof -
  let ?pf = "lab_platform \<lparr>StatusCode = 200, Body = ()\<rparr> :: (http_Request list, unit) platform"
  let ?c = "NewWuliuClient ''code''"
  let ?req = "wuliu_lab_request ?c (kdi_path ''sf'' ''1'')"
  have req: "WuliuClient_request ?pf (decode_as (kdi_example ''3'')) ?c (kdi_path ''sf'' ''1'') []
               = (Inr (kdi_example ''3''), [?req])"
    by (simp add: lab_WuliuClient_request decode_as_def)
  have st: "gsn_Status (kdi_example ''3'') = ''0''"
    by (simp add: kdi_example_def)
  have p: "isl (time_Parse ?pf layout val l)" for layout val l
    by (simp add: lab_platform_def answering_platform_def)
  from GetStatusForNumber_malformed_time [OF req st]
  obtain st where
    "GetStatusForNumber ?pf (decode_as (kdi_example ''3'')) ?c ''sf'' ''1'' [] = (Inr st, [?req])"
    "status_UpdatedAt st = zero_Time"
    "length (status_Items st) = 1"
    "item_Time (status_Items st ! 0) = zero_Time"
    by (auto simp: p kdi_example_def)
  moreover from this have "map item_Time (status_Items st) = [zero_Time]"
    by (cases "status_Items st") auto
  ultimately have
    "\<exists>st. GetStatusForNumber ?pf (decode_as (kdi_example ''3'')) ?c ''sf'' ''1'' [] = (Inr st, [?req])
        \<and> status_UpdatedAt st = zero_Time \<and> map item_Time (status_Items st) = [zero_Time]"
    by (intro exI [of _ st] conjI)
  with req st p [of kdi_layout "''yesterday''" kdi_zone] p [of kdi_layout "''not a time''" kdi_zone]
  show ?thesis
    by (intro conjI)
qed

text \<open>The switch translates seven codes, \<^verbatim>\<open>"0"\<close> to \<^verbatim>\<open>"6"\<close>, not six.\<close>

lemma translated_codes:
  "c \<in> {''0'', ''1'', ''2'', ''3'', ''4'', ''5'', ''6''} \<Longrightarrow> deliveryStatusText c \<noteq> c"
  by (auto simp: deliveryStatusText_def)

text \<open>
  C6, as stated, fails: there is no set of six codes outside of which every
  code comes back unchanged.
\<close>

theorem no_six_code_table:
  "\<not> (\<exists>D. card D = 6 \<and> (\<forall>c. c \<notin> D \<longrightarrow> deliveryStatusText c = c))"
proof
  assume "\<exists>D. card D = 6 \<and> (\<forall>c. c \<notin> D \<longrightarrow> deliveryStatusText c = c)"
  then obtain D where D: "card D = 6" "\<forall>c. c \<notin> D \<longrightarrow> deliveryStatusText c = c"
    by blast
  have fin: "finite D"
    using D(1) by (simp add: card_ge_0_finite)
  have "c \<in> D" if "c \<in> {''0'', ''1'', ''2'', ''3'', ''4'', ''5'', ''6''}" for c
    using D(2) translated_codes [OF that] by (cases "c \<in> D") simp_all
  then have "{''0'', ''1'', ''2'', ''3'', ''4'', ''5'', ''6''} \<subseteq> D"
    by (rule subsetI)
  then have "card {''0'', ''1'', ''2'', ''3'', ''4'', ''5'', ''6''} \<le> card D"
    using fin by (rule card_mono [rotated])
  moreover have "card {''0'', ''1'', ''2'', ''3'', ''4'', ''5'', ''6''} = (7::nat)"
    by simp
  ultimately show False
    using D(1) by simp
qed

text \<open>
  C6, amended. The switch maps each of the seven codes \<^verbatim>\<open>"0"\<close>, \<dots>, \<^verbatim>\<open>"6"\<close> to
  its display string (the UTF-8 bytes of the source's literals); every other
  code is returned unchanged; and the \<^verbatim>\<open>Status\<close> field of a successful
  \<^verbatim>\<open>GetStatusForNumber\<close> is the switch's value at the vendor's delivery status.
\<close>

theorem deliveryStatusText_table:
  "deliveryStatusText ''0'' =
     [CHR 0xE5, CHR 0xBF, CHR 0xAB, CHR 0xE9, CHR 0x80, CHR 0x92, CHR 0xE6, CHR 0x94,
      CHR 0xB6, CHR 0xE4, CHR 0xBB, CHR 0xB6, CHR ''('', CHR 0xE6, CHR 0x8F, CHR 0xBD,
      CHR 0xE4, CHR 0xBB, CHR 0xB6, CHR '')'']
   \<and> deliveryStatusText ''1'' =
     [CHR 0xE5, CHR 0x9C, CHR 0xA8, CHR 0xE9, CHR 0x80, CHR 0x94, CHR 0xE4, CHR 0xB8, CHR 0xAD]
   \<and> deliveryStatusText ''2'' =
     [CHR 0xE6, CHR 0xAD, CHR 0xA3, CHR 0xE5, CHR 0x9C, CHR 0xA8, CHR 0xE6, CHR 0xB4,
      CHR 0xBE, CHR 0xE4, CHR 0xBB, CHR 0xB6]
   \<and> deliveryStatusText ''3'' =
     [CHR 0xE5, CHR 0xB7, CHR 0xB2, CHR 0xE7, CHR 0xAD, CHR 0xBE, CHR 0xE6, CHR 0x94, CHR 0xB6]
   \<and> deliveryStatusText ''4'' =
     [CHR 0xE6, CHR 0xB4, CHR 0xBE, CHR 0xE9, CHR 0x80, CHR 0x81, CHR 0xE5, CHR 0xA4,
      CHR 0xB1, CHR 0xE8, CHR 0xB4, CHR 0xA5]
   \<and> deliveryStatusText ''5'' =
     [CHR 0xE7, CHR 0x96, CHR 0x91, CHR 0xE9, CHR 0x9A, CHR 0xBE, CHR 0xE4, CHR 0xBB, CHR 0xB6]
   \<and> deliveryStatusText ''6'' =
     [CHR 0xE9, CHR 0x80, CHR 0x80, CHR 0xE4, CHR 0xBB, CHR 0xB6, CHR 0xE7, CHR 0xAD,
      CHR 0xBE, CHR 0xE6, CHR 0x94, CHR 0xB6]
   \<and> (status \<notin> {''0'', ''1'', ''2'', ''3'', ''4'', ''5'', ''6''}
        \<longrightarrow> deliveryStatusText status = status)
   \<and> (WuliuClient_request pf decode client (kdi_path code no) w = (Inr ret, w')
        \<and> gsn_Status ret = ''0''
        \<longrightarrow> (\<exists>st. GetStatusForNumber pf decode client code no w = (Inr st, w')
                 \<and> status_Status st = deliveryStatusText (kdi_DeliveryStatus (gsn_Result ret))))"
proof -
  have known: "deliveryStatusText ''0'' =
     [CHR 0xE5, CHR 0xBF, CHR 0xAB, CHR 0xE9, CHR 0x80, CHR 0x92, CHR 0xE6, CHR 0x94,
      CHR 0xB6, CHR 0xE4, CHR 0xBB, CHR 0xB6, CHR ''('', CHR 0xE6, CHR 0x8F, CHR 0xBD,
      CHR 0xE4, CHR 0xBB, CHR 0xB6, CHR '')'']"
    "deliveryStatusText ''1'' =
     [CHR 0xE5, CHR 0x9C, CHR 0xA8, CHR 0xE9, CHR 0x80, CHR 0x94, CHR 0xE4, CHR 0xB8, CHR 0xAD]"
    "deliveryStatusText ''2'' =
     [CHR 0xE6, CHR 0xAD, CHR 0xA3, CHR 0xE5, CHR 0x9C, CHR 0xA8, CHR 0xE6, CHR 0xB4,
      CHR 0xBE, CHR 0xE4, CHR 0xBB, CHR 0xB6]"
    "deliveryStatusText ''3'' =
     [CHR 0xE5, CHR 0xB7, CHR 0xB2, CHR 0xE7, CHR 0xAD, CHR 0xBE, CHR 0xE6, CHR 0x94, CHR 0xB6]"
    "deliveryStatusText ''4'' =
     [CHR 0xE6, CHR 0xB4, CHR 0xBE, CHR 0xE9, CHR 0x80, CHR 0x81, CHR 0xE5, CHR 0xA4,
      CHR 0xB1, CHR 0xE8, CHR 0xB4, CHR 0xA5]"
    "deliveryStatusText ''5'' =
     [CHR 0xE7, CHR 0x96, CHR 0x91, CHR 0xE9, CHR 0x9A, CHR 0xBE, CHR 0xE4, CHR 0xBB, CHR 0xB6]"
    "deliveryStatusText ''6'' =
     [CHR 0xE9, CHR 0x80, CHR 0x80, CHR 0xE4, CHR 0xBB, CHR 0xB6, CHR 0xE7, CHR 0xAD,
      CHR 0xBE, CHR 0xE6, CHR 0x94, CHR 0xB6]"
    by (simp_all add: deliveryStatusText_def)
  have other: "status \<notin> {''0'', ''1'', ''2'', ''3'', ''4'', ''5'', ''6''}
        \<longrightarrow> deliveryStatusText status = status"
    by (simp add: deliveryStatusText_def)
  have call: "WuliuClient_request pf decode client (kdi_path code no) w = (Inr ret, w')
        \<and> gsn_Status ret = ''0''
        \<longrightarrow> (\<exists>st. GetStatusForNumber pf decode client code no w = (Inr st, w')
                 \<and> status_Status st = deliveryStatusText (kdi_DeliveryStatus (gsn_Result ret)))"
    by (auto simp: GetStatusForNumber_success)
  from known other call show ?thesis by (intro conjI)
qed

theorem deliveryStatusText_table_witness:
  "''7'' \<notin> {''0'', ''1'', ''2'', ''3'', ''4'', ''5'', ''6''}
   \<and> deliveryStatusText ''7'' = ''7''
   \<and> WuliuClient_request (lab_platform \<lparr>StatusCode = 200, Body = ()\<rparr>) (decode_as (kdi_example ''7''))
        (NewWuliuClient ''code'') (kdi_path ''sf'' ''1'') []
      = (Inr (kdi_example ''7''), [wuliu_lab_request (NewWuliuClient ''code'') (kdi_path ''sf'' ''1'')])
   \<and> gsn_Status (kdi_example ''7'') = ''0''
   \<and> (\<exists>st. GetStatusForNumber (lab_platform \<lparr>StatusCode = 200, Body = ()\<rparr>)
              (decode_as (kdi_example ''7'')) (NewWuliuClient ''code'') ''sf'' ''1'' []
            = (Inr st, [wuliu_lab_request (NewWuliuClient ''code'') (kdi_path ''sf'' ''1'')])
          \<and> status_Status st = ''7'')"
proof -
  let ?pf = "lab_platform \<lparr>StatusCode = 200, Body = ()\<rparr> :: (http_Request list, unit) platform"
  let ?c = "NewWuliuClient ''code''"
  let ?req = "wuliu_lab_request ?c (kdi_path ''sf'' ''1'')"
  have req: "WuliuClient_request ?pf (decode_as (kdi_example ''7'')) ?c (kdi_path ''sf'' ''1'') []
               = (Inr (kdi_example ''7''), [?req])"
    by (simp add: lab_WuliuClient_request decode_as_def)
  have st: "gsn_Status (kdi_example ''7'') = ''0''"
    and ds: "kdi_DeliveryStatus (gsn_Result (kdi_example ''7'')) = ''7''"
    by (simp_all add: kdi_example_def)
  have notin: "''7'' \<notin> {''0'', ''1'', ''2'', ''3'', ''4'', ''5'', ''6''}"
    by simp
  note table = deliveryStatusText_table [of "''7''" ?pf "decode_as (kdi_example ''7'')" ?c
                 "''sf''" "''1''" "[]" "kdi_example ''7''" "[?req]"]
  from notin table have unchanged: "deliveryStatusText ''7'' = ''7''"
    by simp
  from req st table have
    "\<exists>st. GetStatusForNumber ?pf (decode_as (kdi_example ''7'')) ?c ''sf'' ''1'' [] = (Inr st, [?req])
        \<and> status_Status st = deliveryStatusText (kdi_DeliveryStatus (gsn_Result (kdi_example ''7'')))"
    by simp
  then have
    "\<exists>st. GetStatusForNumber ?pf (decode_as (kdi_example ''7'')) ?c ''sf'' ''1'' [] = (Inr st, [?req])
        \<and> status_Status st = ''7''"
    by (simp only: ds unchanged)
  with notin unchanged req st show ?thesis
    by (intro conjI)
qed

section \<open>Properties of \<^verbatim>\<open>GetProviders\<close>\<close>

lemma GetProviders_stored:
  "providers client \<noteq> [] \<Longrightarrow>
     GetProviders pf decode client w = ((Inr (providers client), client), w)"
  by (simp add: GetProviders_def)

lemma GetProviders_request_fails:
  "providers client = [] \<Longrightarrow>
   WuliuClient_request pf decode client ''/getExpressList'' w = (Inl err, w') \<Longrightarrow>
     GetProviders pf decode client w = ((Inl err, client), w')"
  by (simp add: GetProviders_def)

lemma GetProviders_vendor_fails:
  "providers client = [] \<Longrightarrow>
   WuliuClient_request pf decode client ''/getExpressList'' w = (Inr ret, w') \<Longrightarrow>
   gp_Status ret \<noteq> ''200'' \<Longrightarrow>
     GetProviders pf decode client w = ((Inl (GetProviders_error ret), client), w')"
  by (simp add: GetProviders_def)

lemma GetProviders_empty:
  "providers client = [] \<Longrightarrow>
   WuliuClient_request pf decode client ''/getExpressList'' w = (Inr ret, w') \<Longrightarrow>
   gp_Status ret = ''200'' \<Longrightarrow> gp_Result ret = [] \<Longrightarrow>
     GetProviders pf decode client w = ((Inr [], client), w')"
  by (simp add: GetProviders_def)

lemma GetProviders_fetched:
  "providers client = [] \<Longrightarrow>
   WuliuClient_request pf decode client ''/getExpressList'' w = (Inr ret, w') \<Longrightarrow>
   gp_Status ret = ''200'' \<Longrightarrow> gp_Result ret \<noteq> [] \<Longrightarrow>
     GetProviders pf decode client w =
       ((Inr (sort_key provider_Code (map provider_of (gp_Result ret))),
         client\<lparr>providers := sort_key provider_Code (map provider_of (gp_Result ret))\<rparr>), w')"
  by (simp add: GetProviders_def Let_def)

text \<open>The five ways \<^verbatim>\<open>GetProviders\<close> can go.\<close>

lemma GetProviders_cases [consumes 1, case_names stored failed empty fetched]:
  assumes "GetProviders pf decode client w = ((r, client'), w')"
  obtains
    "providers client \<noteq> []" "r = Inr (providers client)" "client' = client" "w' = w"
  | err where "providers client = []" "r = Inl err" "client' = client"
  | "providers client = []" "r = Inr []" "client' = client"
  | ret :: GetProviders_ret where "providers client = []"
      "r = Inr (sort_key provider_Code (map provider_of (gp_Result ret)))"
      "client' = client\<lparr>providers := sort_key provider_Code (map provider_of (gp_Result ret))\<rparr>"
      "gp_Result ret \<noteq> []"
proof (cases "providers client = []")
  case False
  from GetProviders_stored [OF False, of pf decode w, unfolded assms]
  have "r = Inr (providers client)" "client' = client" "w' = w"
    by simp_all
  with False show ?thesis
    by (rule that(1))
next
  case True
  obtain x w1 where req: "WuliuClient_request pf decode client ''/getExpressList'' w = (x, w1)"
    by (cases "WuliuClient_request pf decode client ''/getExpressList'' w")
  show ?thesis
  proof (cases x)
    case (Inl err)
    from GetProviders_request_fails [OF True req [unfolded Inl], unfolded assms]
    have "r = Inl err" "client' = client"
      by simp_all
    with True show ?thesis
      by (rule that(2))
  next
    case (Inr ret)
    show ?thesis
    proof (cases "gp_Status ret = ''200''")
      case False
      from GetProviders_vendor_fails [OF True req [unfolded Inr] False, unfolded assms]
      have "r = Inl (GetProviders_error ret)" "client' = client"
        by simp_all
      with True show ?thesis
        by (rule that(2))
    next
      case ok: True
      show ?thesis
      proof (cases "gp_Result ret = []")
        case True
        from GetProviders_empty [OF \<open>providers client = []\<close> req [unfolded Inr] ok True,
                unfolded assms]
        have "r = Inr []" "client' = client"
          by simp_all
        with \<open>providers client = []\<close> show ?thesis
          by (rule that(3))
      next
        case False
        from GetProviders_fetched [OF \<open>providers client = []\<close> req [unfolded Inr] ok False,
                unfolded assms]
        have "r = Inr (sort_key provider_Code (map provider_of (gp_Result ret)))"
          "client' = client\<lparr>providers := sort_key provider_Code (map provider_of (gp_Result ret))\<rparr>"
          by simp_all
        with \<open>providers client = []\<close> show ?thesis
          using False by (rule that(4))
      qed
    qed
  qed
qed

text \<open>
  C8. The stored list of a client is empty at first and only \<^verbatim>\<open>GetProviders\<close>
  assigns it, so it is sorted by code whenever \<^verbatim>\<open>GetProviders\<close> is called. Then
  every list \<^verbatim>\<open>GetProviders\<close> returns is sorted in ascending order of the codes,
  in whatever order the decoded map is visited, and so is the list it leaves in
  the client.
\<close>

theorem GetProviders_sorted:
  assumes "sorted (map provider_Code (providers client))"
    and "GetProviders pf decode client w = ((Inr ps, client'), w')"
  shows "sorted (map provider_Code ps) \<and> sorted (map provider_Code (providers client'))"
  using assms(2)
proof (cases rule: GetProviders_cases)
  case stored
  with assms(1) show ?thesis by simp
next
  case (failed err)
  then show ?thesis by simp
next
  case empty
  with assms(1) show ?thesis by simp
next
  case (fetched ret)
  then show ?thesis by simp
qed

text \<open>
  C7. After a call of \<^verbatim>\<open>GetProviders\<close> has returned a non-empty list, that list
  is the stored one, and any later call on the client, in any world \<open>w2\<close> and
  with any platform, returns the same list and leaves the world as it was: it
  sends no request. A call that changes the client is a fetch by a client whose
  stored list was empty, which stores the non-empty list it returns and changes
  nothing else. (The other methods of the client have value receivers and
  return no client.)
\<close>

theorem GetProviders_memoized:
  assumes "GetProviders pf decode client w = ((r, client'), w')"
  shows "(r = Inr ps \<and> ps \<noteq> []
            \<longrightarrow> providers client' = ps
                \<and> GetProviders pf2 decode2 client' w2 = ((Inr ps, client'), w2))
       \<and> (client' \<noteq> client
            \<longrightarrow> providers client = [] \<and> providers client' \<noteq> []
                \<and> r = Inr (providers client') \<and> AppCode client' = AppCode client)"
  using assms
proof (cases rule: GetProviders_cases)
  case stored
  then show ?thesis
    using GetProviders_stored [of client pf2 decode2 w2] by auto
next
  case (failed err)
  then show ?thesis by simp
next
  case empty
  then show ?thesis by auto
next
  case (fetched ret)
  let ?ps = "sort_key provider_Code (map provider_of (gp_Result ret))"
  have ne: "?ps \<noteq> []"
    using fetched(4) by (metis length_map length_sort list.size(3) length_0_conv)
  then have "providers client' \<noteq> []"
    using fetched(3) by simp
  from GetProviders_stored [OF this, of pf2 decode2 w2] fetched ne show ?thesis
    by auto
qed

text \<open>
  A fresh client fetches the three carriers and returns them sorted, whatever the
  status code of the response.
\<close>

lemma GetProviders_express_list:
  "GetProviders (lab_platform resp) (decode_as express_list) (NewWuliuClient ''code'') []
   = ((Inr sorted_express_list, \<lparr>AppCode = ''code'', providers = sorted_express_list\<rparr>),
      [wuliu_lab_request (NewWuliuClient ''code'') ''/getExpressList''])"
proof -
  have "sort_key provider_Code (map provider_of (gp_Result express_list)) = sorted_express_list"
    by (simp add: express_list_def sorted_express_list_def provider_of_def)
  moreover have "providers (NewWuliuClient ''code'') = []"
    by (simp add: NewWuliuClient_def)
  moreover have "gp_Status express_list = ''200''" "gp_Result express_list \<noteq> []"
    by (simp_all add: express_list_def)
  ultimately show ?thesis
    using GetProviders_fetched [of "NewWuliuClient ''code''" "lab_platform resp"
            "decode_as express_list" "[]" express_list]
    by (simp add: lab_WuliuClient_request decode_as_def NewWuliuClient_def)
qed

theorem GetProviders_sorted_witness:
  "sorted (map provider_Code (providers (NewWuliuClient ''code'')))
   \<and> GetProviders (lab_platform \<lparr>StatusCode = 200, Body = ()\<rparr>) (decode_as express_list)
        (NewWuliuClient ''code'') []
      = ((Inr sorted_express_list, \<lparr>AppCode = ''code'', providers = sorted_express_list\<rparr>),
         [wuliu_lab_request (NewWuliuClient ''code'') ''/getExpressList''])
   \<and> sorted (map provider_Code sorted_express_list)
   \<and> map provider_Code sorted_express_list = [''ems'', ''sf'', ''zto'']"
proof -
  have inv: "sorted (map provider_Code (providers (NewWuliuClient ''code'')))"
    by (simp add: NewWuliuClient_def)
  note fetch = GetProviders_express_list [of "\<lparr>StatusCode = 200, Body = ()\<rparr>"]
  from GetProviders_sorted [OF inv fetch]
  have "sorted (map provider_Code sorted_express_list)"
    by simp
  moreover have "map provider_Code sorted_express_list = [''ems'', ''sf'', ''zto'']"
    by (simp add: sorted_express_list_def)
  ultimately show ?thesis
    using inv fetch by (intro conjI)
qed

theorem GetProviders_memoized_witness:
  "GetProviders (lab_platform \<lparr>StatusCode = 200, Body = ()\<rparr>) (decode_as express_list)
        (NewWuliuClient ''code'') []
      = ((Inr sorted_express_list, \<lparr>AppCode = ''code'', providers = sorted_express_list\<rparr>),
         [wuliu_lab_request (NewWuliuClient ''code'') ''/getExpressList''])
   \<and> sorted_express_list \<noteq> []
   \<and> \<lparr>AppCode = ''code'', providers = sorted_express_list\<rparr> \<noteq> NewWuliuClient ''code''
   \<and> providers \<lparr>AppCode = ''code'', providers = sorted_express_list\<rparr> = sorted_express_list
   \<and> GetProviders (lab_platform \<lparr>StatusCode = 500, Body = ()\<rparr>) (decode_as express_list)
        \<lparr>AppCode = ''code'', providers = sorted_express_list\<rparr> []
      = ((Inr sorted_express_list, \<lparr>AppCode = ''code'', providers = sorted_express_list\<rparr>), [])
   \<and> providers (NewWuliuClient ''code'') = []"
proof -
  let ?c' = "\<lparr>AppCode = ''code'', providers = sorted_express_list\<rparr>"
  have ne: "sorted_express_list \<noteq> []"
    by (simp add: sorted_express_list_def)
  then have changed: "?c' \<noteq> NewWuliuClient ''code''"
    by (simp add: NewWuliuClient_def)
  note fetch = GetProviders_express_list [of "\<lparr>StatusCode = 200, Body = ()\<rparr>"]
  note m = GetProviders_memoized [OF fetch,
      of sorted_express_list "lab_platform \<lparr>StatusCode = 500, Body = ()\<rparr>"
         "decode_as express_list" "[]"]
  from m ne have
    again: "GetProviders (lab_platform \<lparr>StatusCode = 500, Body = ()\<rparr>) (decode_as express_list) ?c' []
      = ((Inr sorted_express_list, ?c'), [])"
    by simp
  from m changed have fresh: "providers (NewWuliuClient ''code'') = []"
    by simp
  have "providers ?c' = sorted_express_list"
    by simp
  with fetch ne changed again fresh show ?thesis
    by (intro conjI)
qed

section \<open>Properties of \<^verbatim>\<open>CreateOrder\<close>\<close>

lemma apply_overrides_short:
  "apply_overrides params [] = params" "apply_overrides params [x] = params"
  by (simp_all add: apply_overrides_def)

lemma apply_overrides_pair:
  "apply_overrides params (x # y # rest) = apply_overrides (override_step params x y) rest"
proof -
  define f where "f = (\<lambda>ovs ps i.
      case as_string (ovs ! (2 * i)) of
        Some a \<Rightarrow> (case as_string (ovs ! (2 * i + 1)) of
                     Some b \<Rightarrow> values_Set ps a b | None \<Rightarrow> ps)
      | None \<Rightarrow> ps)"
  have len: "length (x # y # rest) div 2 = Suc (length rest div 2)"
    by simp
  have idx: "[0..<Suc (length rest div 2)] = 0 # map Suc [0..<length rest div 2]"
    by (simp add: upt_conv_Cons map_Suc_upt del: upt_Suc)
  have even: "2 * Suc i = Suc (Suc (2 * i))" and odd: "2 * Suc i + 1 = Suc (Suc (2 * i + 1))" for i
    by simp_all
  have shift: "f (x # y # rest) ps (Suc i) = f rest ps i" for ps i
    unfolding f_def by (simp only: even add_Suc nth_Cons_Suc)
  have first: "f (x # y # rest) params 0 = override_step params x y"
    by (simp add: f_def override_step_def split: option.splits)
  have "apply_overrides params (x # y # rest)
          = foldl (f (x # y # rest)) params (0 # map Suc [0..<length rest div 2])"
    unfolding apply_overrides_def f_def len idx ..
  also have "\<dots> = foldl (\<lambda>ps i. f (x # y # rest) ps (Suc i)) (override_step params x y)
                      [0..<length rest div 2]"
    by (simp add: foldl_map first)
  also have "\<dots> = foldl (f rest) (override_step params x y) [0..<length rest div 2]"
    by (simp only: shift)
  also have "\<dots> = apply_overrides (override_step params x y) rest"
    unfolding apply_overrides_def f_def ..
  finally show ?thesis .
qed

text \<open>
  C10. The loop of \<^verbatim>\<open>CreateOrder\<close> applies its overrides as consecutive pairs
  of a key and a value, in order: a pair is set on the request parameters when
  both of its elements are strings, a pair with an element that is not a string
  has no effect, and an unpaired last element is ignored. The parameters
  \<^verbatim>\<open>CreateOrder\<close> hands to \<^verbatim>\<open>request\<close> are those it builds without overrides,
  with the pairs applied.
\<close>

theorem apply_overrides_pairs:
  "apply_overrides params overrides = set_string_pairs params overrides
   \<and> CreateOrder_params pf token opt overrides
       = set_string_pairs (CreateOrder_params pf token opt []) overrides"
proof -
  have loop: "apply_overrides ps ovs = set_string_pairs ps ovs" for ps ovs
    by (induction ps ovs rule: set_string_pairs.induct)
       (simp_all add: apply_overrides_short apply_overrides_pair override_step_def as_string_def
          split: any.splits)
  show ?thesis
    by (simp add: loop CreateOrder_params_def Let_def)
qed

text \<open>
  A run of the loop: the second pair holds an integer and the third holds
  \<^verbatim>\<open>nil\<close>, the fourth sets a key that is already there, the ninth element has
  no partner.
\<close>

lemma apply_overrides_example:
  "apply_overrides [(''Action'', [''CreateOrder''])]
     [String ''PaymentType'', String ''HAND'', Integer 1, String ''x'', String ''y'', Untyped_nil,
      String ''Action'', String ''Other'', String ''trailing'']
   = [(''Action'', [''Other'']), (''PaymentType'', [''HAND''])]"
  by (simp add: apply_overrides_pair apply_overrides_short override_step_def as_string_def
        values_Set_def)

section \<open>Properties of the errors\<close>

subsection \<open>Failures of the transport\<close>

text \<open>The ways a request of either client can go.\<close>

lemma WuliuClient_request_outcomes:
  "(\<exists>e. WuliuClient_new_request pf client path = Inl e
          \<and> WuliuClient_request pf decode client path w = (Inl e, w))
   \<or> (\<exists>req e w'. WuliuClient_new_request pf client path = Inr req
          \<and> http_Do pf req w = (Inl e, w')
          \<and> WuliuClient_request pf decode client path w = (Inl e, w'))
   \<or> (\<exists>req resp w'. WuliuClient_new_request pf client path = Inr req
          \<and> http_Do pf req w = (Inr resp, w')
          \<and> WuliuClient_request pf decode client path w = (decode (Body resp), w'))"
proof (cases "WuliuClient_new_request pf client path")
  case (Inl e)
  then show ?thesis
    by (simp add: WuliuClient_request_def)
next
  case (Inr req)
  obtain x w' where ex: "http_Do pf req w = (x, w')"
    by (cases "http_Do pf req w")
  show ?thesis
    using Inr ex by (cases x) (simp_all add: WuliuClient_request_def)
qed

lemma MarketClient_request_outcomes:
  "(\<exists>e w2. MarketClient_new_request pf client params w = (Inl e, w2)
          \<and> MarketClient_request pf decode_err decode client params w = (Inl e, w2))
   \<or> (\<exists>req w2 e w3. MarketClient_new_request pf client params w = (Inr req, w2)
          \<and> http_Do pf req w2 = (Inl e, w3)
          \<and> MarketClient_request pf decode_err decode client params w = (Inl e, w3))
   \<or> (\<exists>req w2 resp w3. MarketClient_new_request pf client params w = (Inr req, w2)
          \<and> http_Do pf req w2 = (Inr resp, w3) \<and> StatusCode resp = 200
          \<and> MarketClient_request pf decode_err decode client params w = (decode (Body resp), w3))
   \<or> (\<exists>req w2 resp w3. MarketClient_new_request pf client params w = (Inr req, w2)
          \<and> http_Do pf req w2 = (Inr resp, w3) \<and> StatusCode resp \<noteq> 200
          \<and> MarketClient_request pf decode_err decode client params w
              = (Inl (status_error (StatusCode resp) (decode_err (Body resp))), w3))"
proof -
  obtain y w2 where nr: "MarketClient_new_request pf client params w = (y, w2)"
    by (cases "MarketClient_new_request pf client params w")
  show ?thesis
  proof (cases y)
    case (Inl e)
    with nr show ?thesis
      by (simp add: MarketClient_request_def)
  next
    case (Inr req)
    obtain x w3 where ex: "http_Do pf req w2 = (x, w3)"
      by (cases "http_Do pf req w2")
    show ?thesis
      using nr Inr ex by (cases x) (simp_all add: MarketClient_request_def Let_def)
  qed
qed

text \<open>Every operation passes on the error of its request.\<close>

lemma GetProviders_passes_on:
  "passes_on_error
     (WuliuClient_request pf decode (client\<lparr>providers := []\<rparr>) ''/getExpressList'' w)
     (Some (apfst fst (GetProviders pf decode (client\<lparr>providers := []\<rparr>) w)))"
  by (simp add: passes_on_error_def GetProviders_def Let_def split: prod.splits sum.splits)

lemma GetProvidersForNumber_passes_on:
  "passes_on_error (WuliuClient_request pf decode client (exCompany_path no) w)
     (Some (GetProvidersForNumber pf decode client no w))"
  by (simp add: passes_on_error_def GetProvidersForNumber_def split: prod.splits sum.splits)

lemma GetStatusForNumber_passes_on:
  "passes_on_error (WuliuClient_request pf decode client (kdi_path code no) w)
     (Some (GetStatusForNumber pf decode client code no w))"
  by (simp add: passes_on_error_def GetStatusForNumber_def split: prod.splits sum.splits)

lemma getProducts_passes_on:
  "passes_on_error
     (MarketClient_request pf decode_err decode client (getProducts_params pageNum) w)
     (getProducts (Suc depth) pf decode_err decode client pageNum w)"
  by (simp add: passes_on_error_def Let_def split: prod.splits sum.splits)

lemma GetProduct_passes_on:
  "passes_on_error
     (MarketClient_request pf decode_err decode client (GetProduct_params ident) w)
     (Some (GetProduct pf decode_err decode client ident w))"
  by (simp add: passes_on_error_def GetProduct_def split: prod.splits sum.splits)

lemma GetPrice_passes_on:
  "passes_on_error
     (MarketClient_request pf decode_err decode client (GetPrice_params pf ident opt) w)
     (Some (GetPrice pf decode_err decode client ident opt w))"
  by (simp add: passes_on_error_def GetPrice_def split: prod.splits sum.splits)

lemma CreateOrder_passes_on:
  "passes_on_error
     (MarketClient_request pf decode_err decode client
        (CreateOrder_params pf (fst (randomString pf 64 w)) opt overrides)
        (fmt_Println pf (CreateOrder_params pf (fst (randomString pf 64 w)) opt overrides)
           (snd (randomString pf 64 w))))
     (Some (CreateOrder pf decode_err decode client opt overrides w))"
  by (simp add: passes_on_error_def CreateOrder_def Let_def split_def split: prod.splits sum.splits)

lemma answering_new_request:
  "\<exists>req. MarketClient_new_request (answering_platform answer) client params log = (Inr req, log)"
  by (simp add: MarketClient_new_request_def MarketClient_params_def randomString_def
        answering_platform_def split_def Let_def)

lemma answering_WuliuClient_new_request:
  "WuliuClient_new_request (answering_platform answer) client path
     = Inr (wuliu_lab_request client path)"
  by (simp add: WuliuClient_new_request_def answering_platform_def wuliu_lab_request_def)

lemma answering_Do: "http_Do (answering_platform answer) req log = (answer, log @ [req])"
  by (simp add: answering_platform_def)

text \<open>
  C5, as stated, fails: the Wuliu client never reads the status code. Its server
  answers with status 500 and a body that decodes; \<^verbatim>\<open>GetProviders\<close> returns the
  providers and no error.
\<close>

theorem GetProviders_ignores_http_status:
  "GetProviders (lab_platform \<lparr>StatusCode = 500, Body = ()\<rparr>) (decode_as express_list)
     (NewWuliuClient ''code'') []
   = ((Inr sorted_express_list, \<lparr>AppCode = ''code'', providers = sorted_express_list\<rparr>),
      [wuliu_lab_request (NewWuliuClient ''code'') ''/getExpressList''])"
  by (rule GetProviders_express_list)

text \<open>
  C5, amended. A request of the Wuliu client goes one of three ways: building it
  fails and that error is returned; the exchange fails and that error is
  returned; or a response arrives and, whatever its status code, the request
  returns what \<^verbatim>\<open>Decode\<close> returns, its error included. A request of the Market
  client goes one of four ways: the first two as above; a response with status
  200 arrives and the request returns what \<^verbatim>\<open>Decode\<close> returns; or a response
  with another status arrives and the request returns an error of its own, made
  of the status code and of the code and message decoded from the body. Every
  operation of both clients passes on the error of its request unchanged.
\<close>

theorem transport_failures:
  "((\<exists>e. WuliuClient_new_request pf wclient path = Inl e
          \<and> WuliuClient_request pf decode wclient path w = (Inl e, w))
    \<or> (\<exists>req e w'. WuliuClient_new_request pf wclient path = Inr req
          \<and> http_Do pf req w = (Inl e, w')
          \<and> WuliuClient_request pf decode wclient path w = (Inl e, w'))
    \<or> (\<exists>req resp w'. WuliuClient_new_request pf wclient path = Inr req
          \<and> http_Do pf req w = (Inr resp, w')
          \<and> WuliuClient_request pf decode wclient path w = (decode (Body resp), w')))
   \<and> ((\<exists>e w2. MarketClient_new_request pf client params w = (Inl e, w2)
          \<and> MarketClient_request pf decode_err mdecode client params w = (Inl e, w2))
    \<or> (\<exists>req w2 e w3. MarketClient_new_request pf client params w = (Inr req, w2)
          \<and> http_Do pf req w2 = (Inl e, w3)
          \<and> MarketClient_request pf decode_err mdecode client params w = (Inl e, w3))
    \<or> (\<exists>req w2 resp w3. MarketClient_new_request pf client params w = (Inr req, w2)
          \<and> http_Do pf req w2 = (Inr resp, w3) \<and> StatusCode resp = 200
          \<and> MarketClient_request pf decode_err mdecode client params w
              = (mdecode (Body resp), w3))
    \<or> (\<exists>req w2 resp w3. MarketClient_new_request pf client params w = (Inr req, w2)
          \<and> http_Do pf req w2 = (Inr resp, w3) \<and> StatusCode resp \<noteq> 200
          \<and> MarketClient_request pf decode_err mdecode client params w
              = (Inl (status_error (StatusCode resp) (decode_err (Body resp))), w3)))
   \<and> passes_on_error
        (WuliuClient_request pf decode_gp (wclient\<lparr>providers := []\<rparr>) ''/getExpressList'' w)
        (Some (apfst fst (GetProviders pf decode_gp (wclient\<lparr>providers := []\<rparr>) w)))
   \<and> passes_on_error (WuliuClient_request pf decode_gpn wclient (exCompany_path no) w)
        (Some (GetProvidersForNumber pf decode_gpn wclient no w))
   \<and> passes_on_error (WuliuClient_request pf decode_gsn wclient (kdi_path code no) w)
        (Some (GetStatusForNumber pf decode_gsn wclient code no w))
   \<and> passes_on_error
        (MarketClient_request pf decode_err decode_am client (getProducts_params pageNum) w)
        (getProducts (Suc depth) pf decode_err decode_am client pageNum w)
   \<and> passes_on_error
        (MarketClient_request pf decode_err decode_dp client (GetProduct_params ident) w)
        (Some (GetProduct pf decode_err decode_dp client ident w))
   \<and> passes_on_error
        (MarketClient_request pf decode_err decode_pr client (GetPrice_params pf ident opt) w)
        (Some (GetPrice pf decode_err decode_pr client ident opt w))
   \<and> passes_on_error
        (MarketClient_request pf decode_err decode_co client
           (CreateOrder_params pf (fst (randomString pf 64 w)) priced overrides)
           (fmt_Println pf (CreateOrder_params pf (fst (randomString pf 64 w)) priced overrides)
              (snd (randomString pf 64 w))))
        (Some (CreateOrder pf decode_err decode_co client priced overrides w))"
  by (intro conjI)
     (rule WuliuClient_request_outcomes, rule MarketClient_request_outcomes,
      rule GetProviders_passes_on, rule GetProvidersForNumber_passes_on,
      rule GetStatusForNumber_passes_on, rule getProducts_passes_on,
      rule GetProduct_passes_on, rule GetPrice_passes_on, rule CreateOrder_passes_on)

text \<open>
  Off line, every exchange fails with the same error: the requests of both
  clients return it, and so do \<^verbatim>\<open>GetProviders\<close> and \<^verbatim>\<open>GetProduct\<close>.
\<close>

theorem transport_failures_witness:
  "WuliuClient_request
      (answering_platform (Inl timeout_error) :: (http_Request list, unit) platform)
      (decode_as express_list) (NewWuliuClient ''code'') ''/getExpressList'' []
     = (Inl timeout_error, [wuliu_lab_request (NewWuliuClient ''code'') ''/getExpressList''])
   \<and> apfst fst (GetProviders
                   (answering_platform (Inl timeout_error) :: (http_Request list, unit) platform)
                   (decode_as express_list) (NewWuliuClient ''code'') [])
     = (Inl timeout_error, [wuliu_lab_request (NewWuliuClient ''code'') ''/getExpressList''])
   \<and> (\<exists>log. MarketClient_request (answering_platform (Inl timeout_error)) failure_as_err
                (Inr \<circ> failure_as_product) (NewMarketClient ''id'' ''secret'') (GetProduct_params ''cmapi1'') []
              = (Inl timeout_error, log)
            \<and> GetProduct (answering_platform (Inl timeout_error)) failure_as_err
                (Inr \<circ> failure_as_product) (NewMarketClient ''id'' ''secret'') ''cmapi1'' []
              = (Inl timeout_error, log))"
proof -
  let ?wpf = "answering_platform (Inl timeout_error) :: (http_Request list, unit) platform"
  let ?pf = "answering_platform (Inl timeout_error) :: (http_Request list, failure_body) platform"
  let ?wc = "NewWuliuClient ''code''"
  let ?mc = "NewMarketClient ''id'' ''secret''"
  note tw = transport_failures [where pf = "?wpf" and wclient = "?wc"
      and path = "''/getExpressList''" and decode = "decode_as express_list"
      and decode_gp = "decode_as express_list" and w = "[]"]
  note tm = transport_failures [where pf = "?pf" and w = "[]" and client = "?mc"
      and params = "GetProduct_params ''cmapi1''" and decode_err = failure_as_err
      and mdecode = "Inr \<circ> failure_as_product"
      and decode_dp = "Inr \<circ> failure_as_product"
      and ident = "''cmapi1''"]
  have same: "?wc\<lparr>providers := []\<rparr> = ?wc"
    by (simp add: NewWuliuClient_def)
  from tw [THEN conjunct1] have
    wreq: "WuliuClient_request ?wpf (decode_as express_list) ?wc ''/getExpressList'' []
       = (Inl timeout_error, [wuliu_lab_request ?wc ''/getExpressList''])"
    by (simp add: answering_WuliuClient_new_request answering_Do)
  from tw [THEN conjunct2, THEN conjunct2, THEN conjunct1] have
    wop: "apfst fst (GetProviders ?wpf (decode_as express_list) ?wc [])
       = (Inl timeout_error, [wuliu_lab_request ?wc ''/getExpressList''])"
    by (simp add: same wreq passes_on_error_def)
  obtain req where nr:
    "MarketClient_new_request ?pf ?mc (GetProduct_params ''cmapi1'') [] = (Inr req, [])"
    using answering_new_request by blast
  from tm [THEN conjunct2, THEN conjunct1] have
    mreq: "MarketClient_request ?pf failure_as_err (Inr \<circ> failure_as_product) ?mc
             (GetProduct_params ''cmapi1'') [] = (Inl timeout_error, [req])"
    by (simp add: nr answering_Do)
  from tm [THEN conjunct2, THEN conjunct2, THEN conjunct2, THEN conjunct2, THEN conjunct2,
          THEN conjunct2, THEN conjunct1] have
    mop: "GetProduct ?pf failure_as_err (Inr \<circ> failure_as_product) ?mc ''cmapi1'' []
            = (Inl timeout_error, [req])"
    by (simp add: mreq passes_on_error_def)
  from mreq mop have
    "\<exists>log. MarketClient_request ?pf failure_as_err (Inr \<circ> failure_as_product) ?mc
              (GetProduct_params ''cmapi1'') [] = (Inl timeout_error, log)
         \<and> GetProduct ?pf failure_as_err (Inr \<circ> failure_as_product) ?mc ''cmapi1'' []
              = (Inl timeout_error, log)"
    by (intro exI [of _ "[req]"] conjI)
  with wreq wop show ?thesis
    by (intro conjI)
qed

subsection \<open>Failures reported by the vendor\<close>













lemma GetProduct_no_check:
  "MarketClient_request pf decode_err decode client (GetProduct_params ident) w = (Inr resp, w')
     \<Longrightarrow> GetProduct pf decode_err decode client ident w = (Inr (to_MarketProductDetails resp), w')"
  by (simp add: GetProduct_def)

lemma GetPrice_no_check:
  "MarketClient_request pf decode_err decode client (GetPrice_params pf ident opt) w = (Inr resp, w')
     \<Longrightarrow> \<exists>priced. GetPrice pf decode_err decode client ident opt w = (Inr priced, w')"
  by (simp add: GetPrice_def)

lemma CreateOrder_no_check:
  "MarketClient_request pf decode_err decode client
        (CreateOrder_params pf (fst (randomString pf 64 w)) opt overrides)
        (fmt_Println pf (CreateOrder_params pf (fst (randomString pf 64 w)) opt overrides)
           (snd (randomString pf 64 w))) = (Inr resp, w')
     \<Longrightarrow> CreateOrder pf decode_err decode client opt overrides w = (Inr (order_OrderId resp), w')"
  by (simp add: CreateOrder_def Let_def split_def)









text \<open>The \<^verbatim>\<open>Must\<close> wrappers panic with the error of the operation they wrap.\<close>

lemma Must_wrappers_panic_with_the_error:
  "(GetProviders pf decode_gp client w = ((Inl e, client'), w')
      \<longrightarrow> MustGetProviders pf decode_gp client w = ((Panics e, client'), w'))
   \<and> (GetProvidersForNumber pf decode_gpn client no w = (Inl e, w')
      \<longrightarrow> MustGetProvidersForNumber pf decode_gpn client no w = (Panics e, w'))
   \<and> (GetStatusForNumber pf decode_gsn client code no w = (Inl e, w')
      \<longrightarrow> MustGetStatusForNumber pf decode_gsn client code no w = (Panics e, w'))"
  by (simp add: MustGetProviders_def MustGetProvidersForNumber_def MustGetStatusForNumber_def)






end
